theory Spec2Isabelle
  imports Main "HOL-Library.Sublist" "HOL-Library.Char_ord" "HOL-Library.List_Lexorder"
begin

section \<open>Python strings and values\<close>

text \<open>
  Python strings are modelled as \<^typ>\<open>string\<close>; a character stands for the code point
  with the same number (0 to 255). \<open>Optional[str]\<close> arguments are \<^typ>\<open>string option\<close>.
\<close>

definition dquote :: char where
  "dquote = CHR 0x22"

definition backslash :: char where
  "backslash = CHR 0x5C"

definition newline :: char where
  "newline = CHR 0x0A"

text \<open>\<open>sep.join(xs)\<close>\<close>

fun join_str :: "string \<Rightarrow> string list \<Rightarrow> string" where
  "join_str sep [] = []"
| "join_str sep [x] = x"
| "join_str sep (x # y # ys) = x @ sep @ join_str sep (y # ys)"

text \<open>\<open>s.split(c)\<close> for a one-character separator: never empty, \<open>''.split('/') = ['']\<close>.\<close>

fun split_on :: "char \<Rightarrow> string \<Rightarrow> string list" where
  "split_on c [] = [[]]"
| "split_on c (x # xs) =
     (if x = c then [] # split_on c xs
      else (case split_on c xs of [] \<Rightarrow> [[x]] | w # ws \<Rightarrow> (x # w) # ws))"

definition digit_char :: "nat \<Rightarrow> char" where
  "digit_char n = ''0123456789'' ! n"

text \<open>\<open>str(n)\<close> for an integer, as f-strings render it.\<close>

fun str_nat :: "nat \<Rightarrow> string" where
  "str_nat n = (if n < 10 then [digit_char n] else str_nat (n div 10) @ [digit_char (n mod 10)])"

declare str_nat.simps [simp del]

definition str_int :: "int \<Rightarrow> string" where
  "str_int i = (if i < 0 then CHR ''-'' # str_nat (nat (- i)) else str_nat (nat i))"

text \<open>Truth value of an \<open>Optional[str]\<close>: \<open>None\<close> and \<open>''\<close> are false.\<close>

definition truthy :: "string option \<Rightarrow> bool" where
  "truthy v = (case v of None \<Rightarrow> False | Some s \<Rightarrow> s \<noteq> [])"

text \<open>\<open>v or ''\<close>\<close>

definition or_empty :: "string option \<Rightarrow> string" where
  "or_empty v = (case v of None \<Rightarrow> [] | Some s \<Rightarrow> s)"

text \<open>
  The exceptions of the modelled functions. The two that \<open>subprocess.run\<close> raises carry
  \<open>str\<close> of the exception, \<open>Exception\<close> its message.
\<close>

datatype exn =
    JSONDecodeError
  | BadZipFile
  | ReadError
  | ValueError
  | KeyError
  | TimeoutExpired string
  | CalledProcessError string
  | IsADirectoryError
  | FileNotFoundError
  | Exception string

section \<open>The file system\<close>

text \<open>
  A path is its list of components, as \<open>pathlib\<close> keeps them: an absolute path starts
  with the empty component, and a component \<open>..\<close> stays in the list. The file system maps
  a path to the node that is found at it. The component \<open>..\<close> is resolved when a path is
  used: there are no symbolic links, so two paths with the same normal form (\<open>resolve\<close>)
  reach the same node, and an operation on a path acts on the node, that is on every path
  that reaches it. Every operation succeeds: a file standing where a directory is needed,
  permissions and full disks are outside the model.

  The contents of a file are what its readers make of them: the dictionary that
  \<open>json.load\<close> returns for a document that \<open>json.dump\<close> wrote, the member list of a
  zip or tar archive, or bytes that none of these parsers accepts. A member of a zip
  archive is read whole (\<open>Intact\<close>) or fails its check after some bytes were written
  (\<open>Damaged\<close>); a member of a tar archive is a directory or a regular file.
\<close>

type_synonym path = "string list"

type_synonym dict = "(string \<times> string) list"

datatype member_body = Intact string | Damaged string

datatype zip_entry = ZipEntry (zname: string) (zbody: member_body)

datatype tar_kind = TarDir | TarFile string

datatype tar_entry = TarEntry (tname: string) (tkind: tar_kind)

datatype content =
    Json dict
  | ZipArchive "zip_entry list"
  | TarArchive "tar_entry list"
  | Bytes string

datatype node = Dir | File content

type_synonym filesystem = "path \<Rightarrow> node option"

text \<open>The components a string adds to a path: \<open>pathlib\<close> drops empty and \<open>.\<close> components.\<close>

definition parts :: "string \<Rightarrow> path" where
  "parts s = filter (\<lambda>c. c \<noteq> [] \<and> c \<noteq> ''.'') (split_on CHR ''/'' s)"

text \<open>\<open>p / s\<close>: an absolute \<open>s\<close> starts again from the root.\<close>

definition pjoin :: "path \<Rightarrow> string \<Rightarrow> path" where
  "pjoin p s = (if take 1 s = ''/'' then [] # parts s else p @ parts s)"

text \<open>\<open>p.parent\<close>: the last component is dropped, whatever it is; the root is its own parent.\<close>

definition parent :: "path \<Rightarrow> path" where
  "parent p = (if p = [[]] then p else butlast p)"

definition str_path :: "path \<Rightarrow> string" where
  "str_path p = (if p = [] then ''.'' else if p = [[]] then ''/'' else join_str ''/'' p)"

text \<open>
  The normal form of a path, as the operating system walks it: \<open>..\<close> leaves the
  directory reached so far, stays at the root, and is kept at the start of a relative path.
\<close>

definition up_step :: "path \<Rightarrow> string \<Rightarrow> path" where
  "up_step acc c =
     (if c = ''..'' then
        (if acc = [] \<or> last acc = ''..'' then acc @ [c]
         else if acc = [[]] then acc
         else butlast acc)
      else acc @ [c])"

definition resolve :: "path \<Rightarrow> path" where
  "resolve p = foldl up_step [] p"

definition path_exists :: "filesystem \<Rightarrow> path \<Rightarrow> bool" where
  "path_exists f p = (f p \<noteq> None)"

text \<open>
  \<open>p.mkdir(parents=True, exist_ok=True)\<close>, and \<open>os.makedirs\<close>: the directory and the
  directories on the way to it, taken from the path as it is written, are made where they
  are missing.
\<close>

definition mkdir_parents :: "path \<Rightarrow> filesystem \<Rightarrow> filesystem" where
  "mkdir_parents p f =
     (\<lambda>q. if (\<exists>r \<in> set (prefixes p). resolve q = resolve r) \<and> f q = None then Some Dir else f q)"

text \<open>
  \<open>shutil.rmtree(p)\<close>: the node and all below it are gone, and so is every path that
  leads through it.
\<close>

definition rmtree :: "path \<Rightarrow> filesystem \<Rightarrow> filesystem" where
  "rmtree p f =
     (\<lambda>q. if \<exists>r \<in> set (prefixes q). prefix (resolve p) (resolve r) then None else f q)"

text \<open>\<open>open(p, 'w')\<close> or \<open>open(p, 'wb')\<close>, written and closed: the old contents are gone.\<close>

definition write_file :: "path \<Rightarrow> content \<Rightarrow> filesystem \<Rightarrow> filesystem" where
  "write_file p c f = (\<lambda>q. if resolve q = resolve p then Some (File c) else f q)"

text \<open>\<open>p.unlink(missing_ok=True)\<close>\<close>

definition unlink :: "path \<Rightarrow> filesystem \<Rightarrow> filesystem" where
  "unlink p f = (\<lambda>q. if resolve q = resolve p then None else f q)"

section \<open>The world outside the program\<close>

text \<open>
  What the program changes: the file system, the lines written to standard output, the
  in-memory \<open>m_metadata_cache\<close> of the \<open>package_cache\<close> object, the seconds slept, the
  URLs opened and the command lines run.
\<close>

record world =
  fs :: filesystem
  out :: "string list"
  metadata_cache :: "string \<Rightarrow> dict option"
  slept :: "nat list"
  requests :: "string list"
  procs :: "string list list"

text \<open>
  One attempt to download: the body arrives, or \<open>urlopen\<close> raises one of the three
  exception classes the retry loop catches before the destination is opened, or a read
  raises one of them after the destination was opened and some data written. The string
  is \<open>str\<close> of the exception.
\<close>

datatype attempt =
    Body content
  | OpenFailed string
  | ReadFailed content string

text \<open>
  A finished \<open>subprocess.run\<close>: whether it ran into its timeout, the exit status, the
  captured standard error, \<open>str\<close> of the exception that \<open>check=True\<close> or the timeout
  raises, and for \<open>git clone\<close> whether the destination directory is on disk afterwards.
  The commands are commands that start: a \<open>git\<close> that is not installed is outside the
  model, as the failures of the file system are.
\<close>

record proc_result =
  timed_out :: bool
  returncode :: int
  stderr :: string
  exc_text :: string
  leaves_dest :: bool

text \<open>
  What the program does not decide: the digest that \<open>hashlib.sha256(...).hexdigest()\<close>
  computes, what the network answers to the \<open>n\<close>-th attempt on a URL, and how a command
  line ends.
\<close>

record env =
  sha256_hexdigest :: "string \<Rightarrow> string"
  urlopen :: "string \<Rightarrow> nat \<Rightarrow> attempt"
  subprocess_run :: "string list \<Rightarrow> proc_result"

section \<open>class logger\<close>

definition logger_log :: "string \<Rightarrow> world \<Rightarrow> world" where
  "logger_log p_message s = s\<lparr>out := out s @ [''-- '' @ p_message @ [newline]]\<rparr>"

definition logger_info :: "string \<Rightarrow> world \<Rightarrow> world" where
  "logger_info p_message = logger_log (''INFO:'' @ p_message)"

definition logger_error :: "string \<Rightarrow> world \<Rightarrow> world" where
  "logger_error p_message = logger_log (''ERROR:'' @ p_message)"

definition logger_success :: "string \<Rightarrow> world \<Rightarrow> world" where
  "logger_success p_message = logger_log (''SUCCESS:'' @ p_message)"

definition logger_status :: "string \<Rightarrow> string \<Rightarrow> world \<Rightarrow> world" where
  "logger_status p_status p_name = logger_log (p_status @ '':'' @ p_name)"

text \<open>The line that \<open>status\<close> writes, and whether a run has written it.\<close>

definition status_line :: "string \<Rightarrow> string \<Rightarrow> string" where
  "status_line p_status p_name = ''-- '' @ p_status @ '':'' @ p_name @ [newline]"

definition emitted :: "string \<Rightarrow> string \<Rightarrow> world \<Rightarrow> bool" where
  "emitted p_status p_name s = (status_line p_status p_name \<in> set (out s))"

section \<open>class package\_cache\<close>

text \<open>
  \<open>json.dumps(d, sort_keys=True)\<close> for a dictionary of strings: the keys in code point
  order, the separators \<open>", "\<close> and \<open>": "\<close>, and every string between double quotes with
  the escapes of \<open>ensure_ascii=True\<close> (the quote and the backslash, the five short
  escapes, and \<open>\u00XX\<close> in lower-case hexadecimal for everything outside space to tilde).
\<close>

definition hex_digit :: "nat \<Rightarrow> char" where
  "hex_digit n = ''0123456789abcdef'' ! n"

definition escape_char :: "char \<Rightarrow> string" where
  "escape_char c =
     (if c = backslash then [backslash, backslash]
      else if c = dquote then [backslash, dquote]
      else if c = CHR 0x08 then [backslash, CHR ''b'']
      else if c = CHR 0x0C then [backslash, CHR ''f'']
      else if c = CHR 0x0A then [backslash, CHR ''n'']
      else if c = CHR 0x0D then [backslash, CHR ''r'']
      else if c = CHR 0x09 then [backslash, CHR ''t'']
      else if CHR 0x20 \<le> c \<and> c \<le> CHR 0x7E then [c]
      else [backslash, CHR ''u'', CHR ''0'', CHR ''0'',
            hex_digit (of_char c div 16), hex_digit (of_char c mod 16)])"

definition encode_basestring_ascii :: "string \<Rightarrow> string" where
  "encode_basestring_ascii s = dquote # concat (map escape_char s) @ [dquote]"

definition json_dumps_sorted :: "dict \<Rightarrow> string" where
  "json_dumps_sorted d =
     ''{'' @ join_str '', ''
       (map (\<lambda>(k, v). encode_basestring_ascii k @ '': '' @ encode_basestring_ascii v)
         (sort_key fst d)) @ ''}''"

text \<open>\<open>package_cache.get_package_hash\<close>: the first 16 characters of the hexadecimal digest.\<close>

definition get_package_hash :: "env \<Rightarrow> dict \<Rightarrow> string" where
  "get_package_hash e p_info = take 16 (sha256_hexdigest e (json_dumps_sorted p_info))"

text \<open>\<open>with open(p, 'r') as f: json.load(f)\<close>\<close>

definition json_load :: "filesystem \<Rightarrow> path \<Rightarrow> exn + dict" where
  "json_load f p =
     (case f p of
        None \<Rightarrow> Inl FileNotFoundError
      | Some Dir \<Rightarrow> Inl IsADirectoryError
      | Some (File (Json d)) \<Rightarrow> Inr d
      | Some (File _) \<Rightarrow> Inl JSONDecodeError)"

text \<open>\<open>package_cache.is_cache_valid\<close>, with \<open>cd\<close> the cache directory \<open>m_cache_dir\<close>.\<close>

definition is_cache_valid ::
  "env \<Rightarrow> path \<Rightarrow> string \<Rightarrow> dict \<Rightarrow> path \<Rightarrow> world \<Rightarrow> (exn + bool) \<times> world" where
  "is_cache_valid e cd p_name p_info p_package_dir s =
     (if \<not> path_exists (fs s) p_package_dir then (Inr False, s)
      else
        let cache_file = pjoin (pjoin (pjoin cd p_name) ''CACHE'') ''.cache'' in
        if \<not> path_exists (fs s) cache_file then (Inr False, s)
        else
          (case metadata_cache s p_name of
             Some cached_info \<Rightarrow>
               (Inr (get_package_hash e cached_info = get_package_hash e p_info), s)
           | None \<Rightarrow>
               (case json_load (fs s) cache_file of
                  Inl err \<Rightarrow> (Inl err, s)
                | Inr cached_info \<Rightarrow>
                    (Inr (get_package_hash e cached_info = get_package_hash e p_info),
                     s\<lparr>metadata_cache := (metadata_cache s)(p_name \<mapsto> cached_info)\<rparr>))))"

section \<open>class download\_helper\<close>

definition attempt_error :: "attempt \<Rightarrow> string option" where
  "attempt_error a = (case a of Body c \<Rightarrow> None | OpenFailed err \<Rightarrow> Some err | ReadFailed c err \<Rightarrow> Some err)"

definition attempt_written :: "attempt \<Rightarrow> content option" where
  "attempt_written a = (case a of Body c \<Rightarrow> Some c | OpenFailed err \<Rightarrow> None | ReadFailed c err \<Rightarrow> Some c)"

text \<open>
  The body of \<open>for attempt in range(p_retries)\<close>, over the attempts still to make. The
  destination is opened with \<open>'wb'\<close> once the response is there, so whatever an attempt
  writes replaces the file. The two lines that report the file size and the progress
  (formatted floating point numbers) are not part of \<open>out\<close>.
\<close>

fun retry_loop ::
  "env \<Rightarrow> string \<Rightarrow> path \<Rightarrow> int \<Rightarrow> nat list \<Rightarrow> world \<Rightarrow> (exn + bool) \<times> world" where
  "retry_loop e p_url p_dest p_retries [] s = (Inr False, s)"
| "retry_loop e p_url p_dest p_retries (attempt # rest) s =
     (let s1 = logger_info (''Downloading from: '' @ p_url) s;
          s2 = s1\<lparr>requests := requests s1 @ [p_url]\<rparr>;
          a = urlopen e p_url attempt;
          s3 = (case attempt_written a of
                  None \<Rightarrow> s2
                | Some c \<Rightarrow> s2\<lparr>fs := write_file p_dest c (fs s2)\<rparr>)
      in case attempt_error a of
           None \<Rightarrow> (Inr True, logger_info ''Download completed successfully'' s3)
         | Some err \<Rightarrow>
             (let s4 = logger_error
                    (''Download attempt '' @ str_nat (attempt + 1) @ '' failed: '' @ err) s3
              in if int attempt < p_retries - 1 then
                   (let wait_time = 2 ^ attempt;
                        s5 = logger_info (''Retrying in '' @ str_nat wait_time @ '' seconds...'') s4;
                        s6 = s5\<lparr>slept := slept s5 @ [wait_time]\<rparr>
                    in retry_loop e p_url p_dest p_retries rest s6)
                 else
                   (Inl (Exception (''Failed to download after '' @ str_int p_retries
                           @ '' attempts: '' @ err)), s4)))"

definition download_with_retry ::
  "env \<Rightarrow> string \<Rightarrow> path \<Rightarrow> int \<Rightarrow> world \<Rightarrow> (exn + bool) \<times> world" where
  "download_with_retry e p_url p_dest p_retries s =
     retry_loop e p_url p_dest p_retries [0..<nat p_retries] s"

section \<open>class git\_helper\<close>

text \<open>\<open>subprocess.run(cmd, check=..., timeout=...)\<close>\<close>

definition run_command ::
  "env \<Rightarrow> string list \<Rightarrow> bool \<Rightarrow> world \<Rightarrow> (exn + proc_result) \<times> world" where
  "run_command e cmd check s =
     (let r = subprocess_run e cmd;
          s1 = s\<lparr>procs := procs s @ [cmd]\<rparr>
      in if timed_out r then (Inl (TimeoutExpired (exc_text r)), s1)
         else if check \<and> returncode r \<noteq> 0 then (Inl (CalledProcessError (exc_text r)), s1)
         else (Inr r, s1))"

definition clone_command :: "string \<Rightarrow> path \<Rightarrow> string option \<Rightarrow> string list" where
  "clone_command p_repo p_dest p_tag =
     [''git'', ''clone'']
     @ (if truthy p_tag then [''--branch'', the p_tag] else [])
     @ [''--recurse-submodules'', ''--quiet'', ''--shallow-submodules'', ''--single-branch'',
        ''--depth'', ''1'', p_repo, str_path p_dest]"

definition full_clone ::
  "env \<Rightarrow> string \<Rightarrow> path \<Rightarrow> string option \<Rightarrow> world \<Rightarrow> (exn + bool) \<times> world" where
  "full_clone e p_repo p_dest p_tag s =
     (let s1 = logger_info (''Cloning repository: '' @ p_repo) s;
          s2 = (if truthy p_tag then logger_info (''Using tag/branch: '' @ the p_tag) s1 else s1);
          cmd = clone_command p_repo p_dest p_tag;
          s3 = logger_info (''Executing '' @ join_str '' '' cmd) s2;
          s4 = (if leaves_dest (subprocess_run e cmd)
                then s3\<lparr>fs := mkdir_parents p_dest (fs s3)\<rparr> else s3)
      in case run_command e cmd False s4 of
           (Inl err, s5) \<Rightarrow> (Inl err, s5)
         | (Inr result, s5) \<Rightarrow>
             if returncode result = 0
             then (Inr True, logger_info ''Repository cloned successfully'' s5)
             else (Inr False, logger_error (''Clone failed: '' @ stderr result) s5))"

definition fetch_command :: "string list" where
  "fetch_command = [''git'', ''fetch'', ''--all'', ''--quiet'']"

definition reset_command :: "string list" where
  "reset_command = [''git'', ''reset'', ''--hard'', ''origin/HEAD'', ''--quiet'']"

definition submodule_command :: "string list" where
  "submodule_command = [''git'', ''submodule'', ''update'', ''--init'', ''--recursive'', ''--quiet'']"

text \<open>The \<open>try\<close> block of \<open>update_full\<close>.\<close>

definition update_steps :: "env \<Rightarrow> path \<Rightarrow> world \<Rightarrow> (exn + bool) \<times> world" where
  "update_steps e p_dest s =
     (let s1 = logger_info (''Updating repository at: '' @ str_path p_dest) s;
          s2 = logger_info ''Fetching all changes...'' s1
      in case run_command e fetch_command True s2 of
           (Inl err, s3) \<Rightarrow> (Inl err, s3)
         | (Inr r1, s3) \<Rightarrow>
             (let s4 = logger_info ''Resetting to latest...'' s3
              in case run_command e reset_command True s4 of
                   (Inl err, s5) \<Rightarrow> (Inl err, s5)
                 | (Inr r2, s5) \<Rightarrow>
                     (let s6 = logger_info ''Updating submodules...'' s5
                      in case run_command e submodule_command False s6 of
                           (Inl err, s7) \<Rightarrow> (Inl err, s7)
                         | (Inr r3, s7) \<Rightarrow>
                             (Inr True, logger_info ''Repository updated successfully'' s7))))"

text \<open>\<open>except (subprocess.CalledProcessError, subprocess.TimeoutExpired) as e\<close>\<close>

definition update_full :: "env \<Rightarrow> path \<Rightarrow> world \<Rightarrow> (exn + bool) \<times> world" where
  "update_full e p_dest s =
     (case update_steps e p_dest s of
        (Inl (CalledProcessError txt), s1) \<Rightarrow> (Inr False, logger_error (''Update failed: '' @ txt) s1)
      | (Inl (TimeoutExpired txt), s1) \<Rightarrow> (Inr False, logger_error (''Update failed: '' @ txt) s1)
      | (Inl err, s1) \<Rightarrow> (Inl err, s1)
      | (Inr b, s1) \<Rightarrow> (Inr b, s1))"

section \<open>Archives\<close>

text \<open>\<open>min\<close> and \<open>max\<close> of a non-empty list.\<close>

definition list_min :: "'a::linorder list \<Rightarrow> 'a" where
  "list_min xs = fold min (tl xs) (hd xs)"

definition list_max :: "'a::linorder list \<Rightarrow> 'a" where
  "list_max xs = fold max (tl xs) (hd xs)"

text \<open>The components two component lists share from the start.\<close>

fun common_components :: "string list \<Rightarrow> string list \<Rightarrow> string list" where
  "common_components (c # cs) (d # ds) = (if c \<noteq> d then [] else c # common_components cs ds)"
| "common_components cs ds = []"

text \<open>
  \<open>os.path.commonpath(paths)\<close> of \<open>posixpath\<close>, for a non-empty list: the paths are
  split at the slashes, empty and \<open>.\<close> components dropped, and the common components of
  the least and the greatest list joined again, without a slash at the end.
\<close>

definition commonpath :: "string list \<Rightarrow> exn + string" where
  "commonpath paths =
     (let split_paths = map (split_on CHR ''/'') paths;
          isabs = map (\<lambda>p. take 1 p = ''/'') paths
      in if \<exists>b \<in> set isabs. b \<noteq> hd isabs then Inl ValueError
         else
           (let split_paths' = map (filter (\<lambda>c. c \<noteq> [] \<and> c \<noteq> ''.'')) split_paths;
                s1 = list_min split_paths';
                s2 = list_max split_paths';
                common = common_components s1 s2
            in Inr ((if hd isabs then ''/'' else []) @ join_str ''/'' common)))"

text \<open>\<open>ZipFile.NameToInfo\<close>: a name stands for the last member that carries it.\<close>

definition zip_lookup :: "zip_entry list \<Rightarrow> string \<Rightarrow> member_body option" where
  "zip_lookup ms n = map_of (map (\<lambda>m. (zname m, zbody m)) (rev ms)) n"

text \<open>
  \<open>with zip_ref.open(member) as source, open(target, 'wb') as dest: copyfileobj(source, dest)\<close>:
  a damaged member raises \<open>BadZipFile\<close> after the target was opened and written.
\<close>

definition copy_member ::
  "zip_entry list \<Rightarrow> string \<Rightarrow> path \<Rightarrow> filesystem \<Rightarrow> (exn + unit) \<times> filesystem" where
  "copy_member ms n target f =
     (case zip_lookup ms n of
        None \<Rightarrow> (Inl KeyError, f)
      | Some (Intact b) \<Rightarrow> (Inr (), write_file target (Bytes b) f)
      | Some (Damaged b) \<Rightarrow> (Inl BadZipFile, write_file target (Bytes b) f))"

text \<open>
  The loop over the members of a zip archive that strips the common prefix. The rest of
  the name is joined to the package directory as it is: a rest that starts with a slash
  starts again from the root, and a component \<open>..\<close> in it leaves the directory when the
  target is made or opened.
\<close>

fun zip_strip_loop ::
  "zip_entry list \<Rightarrow> string \<Rightarrow> path \<Rightarrow> nat \<Rightarrow> string list \<Rightarrow> world \<Rightarrow> (exn + unit) \<times> world" where
  "zip_strip_loop ms common_prefix package_dir idx [] s = (Inr (), s)"
| "zip_strip_loop ms common_prefix package_dir idx (member # rest) s =
     (let s1 = (if idx mod 100 = 0 \<and> idx > 0
                then logger_info (''Extracted '' @ str_nat idx @ ''/''
                       @ str_nat (length ms) @ '' files...'') s
                else s)
      in if prefix common_prefix member then
           (let target = pjoin package_dir (drop (length common_prefix + 1) member)
            in if suffix ''/'' member then
                 zip_strip_loop ms common_prefix package_dir (idx + 1) rest
                   (s1\<lparr>fs := mkdir_parents target (fs s1)\<rparr>)
               else
                 (case copy_member ms member target (mkdir_parents (parent target) (fs s1)) of
                    (Inl err, f) \<Rightarrow> (Inl err, s1\<lparr>fs := f\<rparr>)
                  | (Inr u, f) \<Rightarrow>
                      zip_strip_loop ms common_prefix package_dir (idx + 1) rest (s1\<lparr>fs := f\<rparr>)))
         else zip_strip_loop ms common_prefix package_dir (idx + 1) rest s1)"

text \<open>
  \<open>ZipFile.extractall(package_dir)\<close>: every name is cleaned of empty, \<open>.\<close> and \<open>..\<close>
  components, its upper directories are made, and the member becomes a directory (the name
  ends with a slash) or a file.
\<close>

definition zip_target :: "path \<Rightarrow> string \<Rightarrow> path" where
  "zip_target package_dir n =
     package_dir @ filter (\<lambda>c. c \<noteq> [] \<and> c \<noteq> ''.'' \<and> c \<noteq> ''..'') (split_on CHR ''/'' n)"

fun zip_extractall ::
  "zip_entry list \<Rightarrow> path \<Rightarrow> string list \<Rightarrow> filesystem \<Rightarrow> (exn + unit) \<times> filesystem" where
  "zip_extractall ms package_dir [] f = (Inr (), f)"
| "zip_extractall ms package_dir (member # rest) f =
     (let targetpath = zip_target package_dir member;
          f1 = mkdir_parents (parent targetpath) f
      in if suffix ''/'' member then zip_extractall ms package_dir rest (mkdir_parents targetpath f1)
         else
           (case copy_member ms member targetpath f1 of
              (Inl err, f2) \<Rightarrow> (Inl err, f2)
            | (Inr u, f2) \<Rightarrow> zip_extractall ms package_dir rest f2))"

text \<open>
  \<open>TarFile.extract(member, package_dir)\<close> for a member of the given name and kind,
  called as the source calls it, without an extraction filter: the name is joined to the
  package directory as it is, its upper directories are made, and the member is written
  where the joined path leads.
\<close>

definition tar_extract :: "path \<Rightarrow> string \<Rightarrow> tar_kind \<Rightarrow> filesystem \<Rightarrow> filesystem" where
  "tar_extract package_dir n k f =
     (let targetpath = pjoin package_dir n;
          f1 = mkdir_parents (parent targetpath) f
      in case k of
           TarDir \<Rightarrow> mkdir_parents targetpath f1
         | TarFile b \<Rightarrow> write_file targetpath (Bytes b) f1)"

text \<open>The loop over the members of a tar archive that strips the common prefix.\<close>

fun tar_strip_loop :: "nat \<Rightarrow> string \<Rightarrow> path \<Rightarrow> nat \<Rightarrow> tar_entry list \<Rightarrow> world \<Rightarrow> world" where
  "tar_strip_loop n common_prefix package_dir idx [] s = s"
| "tar_strip_loop n common_prefix package_dir idx (member # rest) s =
     (let s1 = (if idx mod 100 = 0 \<and> idx > 0
                then logger_info (''Extracted '' @ str_nat idx @ ''/'' @ str_nat n @ '' files...'') s
                else s)
      in if prefix common_prefix (tname member) then
           (let name' = drop (length common_prefix + 1) (tname member)
            in if name' \<noteq> [] then
                 tar_strip_loop n common_prefix package_dir (idx + 1) rest
                   (s1\<lparr>fs := tar_extract package_dir name' (tkind member) (fs s1)\<rparr>)
               else tar_strip_loop n common_prefix package_dir (idx + 1) rest s1)
         else tar_strip_loop n common_prefix package_dir (idx + 1) rest s1)"

text \<open>\<open>TarFile.extractall(package_dir)\<close>\<close>

definition tar_extractall :: "path \<Rightarrow> tar_entry list \<Rightarrow> filesystem \<Rightarrow> filesystem" where
  "tar_extractall package_dir ms f = fold (\<lambda>m. tar_extract package_dir (tname m) (tkind m)) ms f"

section \<open>class package\_manager\<close>

text \<open>The parsed command line.\<close>

record args =
  cache_dir :: path
  name :: string
  version :: "string option"
  git_tag :: "string option"
  github_repository :: "string option"
  git_repository :: "string option"
  url :: "string option"
  keep_updated :: bool
  download_only :: bool
  options :: "string list option"
  clear_cache :: bool
  clear_package_arg :: "string option"

text \<open>\<open>package_manager.__init__\<close>: the cache directory is made, the metadata cache is empty.\<close>

definition package_manager_init :: "path \<Rightarrow> world \<Rightarrow> world" where
  "package_manager_init p_cache_dir s =
     s\<lparr>fs := mkdir_parents p_cache_dir (fs s), metadata_cache := (\<lambda>n. None)\<rparr>"

definition get_cache_file :: "path \<Rightarrow> string \<Rightarrow> world \<Rightarrow> path \<times> world" where
  "get_cache_file cd p_name s =
     (let cache_dir' = pjoin (pjoin cd p_name) ''CACHE''
      in (pjoin cache_dir' ''.cache'', s\<lparr>fs := mkdir_parents cache_dir' (fs s)\<rparr>))"

definition get_package_dir :: "path \<Rightarrow> string \<Rightarrow> path" where
  "get_package_dir cd p_name = pjoin (pjoin cd p_name) p_name"

definition save_cached_info :: "path \<Rightarrow> string \<Rightarrow> dict \<Rightarrow> world \<Rightarrow> world" where
  "save_cached_info cd p_name p_info s =
     (case get_cache_file cd p_name s of
        (cache_file, s1) \<Rightarrow> s1\<lparr>fs := write_file cache_file (Json p_info) (fs s1)\<rparr>)"

definition needs_refetch ::
  "env \<Rightarrow> path \<Rightarrow> string \<Rightarrow> dict \<Rightarrow> world \<Rightarrow> (exn + bool) \<times> world" where
  "needs_refetch e cd p_name p_new_info s =
     (case is_cache_valid e cd p_name p_new_info (get_package_dir cd p_name) s of
        (Inl err, s1) \<Rightarrow> (Inl err, s1)
      | (Inr valid, s1) \<Rightarrow> (Inr (\<not> valid), s1))"

definition clear_package :: "path \<Rightarrow> string \<Rightarrow> world \<Rightarrow> world" where
  "clear_package cd p_name s =
     (let s1 = logger_info (''Clearing package cache for: '' @ p_name) s;
          package_parent = pjoin cd p_name
      in if path_exists (fs s1) package_parent then
           (let s2 = s1\<lparr>fs := rmtree package_parent (fs s1)\<rparr>;
                s3 = s2\<lparr>metadata_cache := (metadata_cache s2)(p_name := None)\<rparr>
            in logger_info (''Package '' @ p_name @ '' cleared successfully'') s3)
         else logger_info (''Package '' @ p_name @ '' not found in cache'') s1)"

definition clone_repo ::
  "env \<Rightarrow> path \<Rightarrow> string \<Rightarrow> string \<Rightarrow> string option \<Rightarrow> world \<Rightarrow> (exn + unit) \<times> world" where
  "clone_repo e cd p_name p_repo p_tag s =
     (let package_dir = get_package_dir cd p_name;
          s1 = s\<lparr>fs := mkdir_parents (parent package_dir) (fs s)\<rparr>;
          s2 = logger_info (''Starting clone for package: '' @ p_name) s1
      in case full_clone e p_repo package_dir p_tag s2 of
           (Inl err, s3) \<Rightarrow> (Inl err, s3)
         | (Inr ok, s3) \<Rightarrow>
             if \<not> ok then (Inl (Exception (''Failed to clone '' @ p_name @ '' from '' @ p_repo)), s3)
             else (Inr (), s3))"

definition update_repo :: "env \<Rightarrow> path \<Rightarrow> string \<Rightarrow> world \<Rightarrow> (exn + bool) \<times> world" where
  "update_repo e cd p_name s =
     (let package_dir = get_package_dir cd p_name
      in if \<not> path_exists (fs s) package_dir then (Inr False, s)
         else update_full e package_dir s)"

text \<open>The zip branch of the \<open>try\<close> block of \<open>download_archive\<close>.\<close>

definition extract_zip :: "path \<Rightarrow> path \<Rightarrow> world \<Rightarrow> (exn + unit) \<times> world" where
  "extract_zip download_file package_dir s =
     (let s1 = logger_info ''Detected ZIP archive'' s
      in case fs s1 download_file of
           Some (File (ZipArchive ms)) \<Rightarrow>
             (let members = map zname ms;
                  s2 = logger_info (''Archive contains '' @ str_nat (length members) @ '' files'') s1
              in case (if members \<noteq> [] then commonpath members else Inr []) of
                   Inl err \<Rightarrow> (Inl err, s2)
                 | Inr common_prefix \<Rightarrow>
                     if common_prefix \<noteq> [] \<and> CHR ''/'' \<in> set common_prefix then
                       zip_strip_loop ms common_prefix package_dir 0 members
                         (logger_info (''Stripping common prefix: '' @ common_prefix) s2)
                     else
                       (case zip_extractall ms package_dir members (fs s2) of
                          (r, f) \<Rightarrow> (r, s2\<lparr>fs := f\<rparr>)))
         | Some (File other) \<Rightarrow> (Inl BadZipFile, s1)
         | Some Dir \<Rightarrow> (Inl IsADirectoryError, s1)
         | None \<Rightarrow> (Inl FileNotFoundError, s1))"

text \<open>The tar branch.\<close>

definition extract_tar :: "path \<Rightarrow> path \<Rightarrow> world \<Rightarrow> (exn + unit) \<times> world" where
  "extract_tar download_file package_dir s =
     (let s1 = logger_info ''Detected TAR archive'' s
      in case fs s1 download_file of
           Some (File (TarArchive members)) \<Rightarrow>
             (let s2 = logger_info (''Archive contains '' @ str_nat (length members) @ '' files'') s1
              in case (if members \<noteq> [] then commonpath (map tname members) else Inr []) of
                   Inl err \<Rightarrow> (Inl err, s2)
                 | Inr common_prefix \<Rightarrow>
                     if common_prefix \<noteq> [] \<and> CHR ''/'' \<in> set common_prefix then
                       (Inr (), tar_strip_loop (length members) common_prefix package_dir 0 members
                          (logger_info (''Stripping common prefix: '' @ common_prefix) s2))
                     else (Inr (), s2\<lparr>fs := tar_extractall package_dir members (fs s2)\<rparr>))
         | Some (File other) \<Rightarrow> (Inl ReadError, s1)
         | Some Dir \<Rightarrow> (Inl IsADirectoryError, s1)
         | None \<Rightarrow> (Inl FileNotFoundError, s1))"

text \<open>The \<open>try\<close> block of \<open>download_archive\<close>.\<close>

definition extract_archive :: "string \<Rightarrow> string \<Rightarrow> path \<Rightarrow> path \<Rightarrow> world \<Rightarrow> (exn + unit) \<times> world" where
  "extract_archive p_name p_url download_file package_dir s =
     (let s1 = logger_info (''Extracting archive for '' @ p_name @ ''...'') s
      in case (if suffix ''.zip'' p_url then extract_zip download_file package_dir s1
               else extract_tar download_file package_dir s1) of
           (Inl err, s2) \<Rightarrow> (Inl err, s2)
         | (Inr u, s2) \<Rightarrow> (Inr (), logger_info (''Extraction completed for '' @ p_name) s2))"

text \<open>
  \<open>download_archive\<close>: the download stands before the \<open>try\<close>, the \<open>finally\<close> clause
  runs after the \<open>try\<close> block however that ends.
\<close>

definition download_archive :: "env \<Rightarrow> path \<Rightarrow> string \<Rightarrow> string \<Rightarrow> world \<Rightarrow> (exn + unit) \<times> world" where
  "download_archive e cd p_name p_url s =
     (let package_dir = get_package_dir cd p_name;
          s1 = s\<lparr>fs := mkdir_parents (parent package_dir) (fs s)\<rparr>;
          s2 = logger_info (''Starting archive download for package: '' @ p_name) s1;
          download_file = pjoin cd (p_name @ ''_download'')
      in case download_with_retry e p_url download_file 3 s2 of
           (Inl err, s3) \<Rightarrow> (Inl err, s3)
         | (Inr downloaded, s3) \<Rightarrow>
             (case extract_archive p_name p_url download_file package_dir s3 of
                (r, s4) \<Rightarrow>
                  (let s5 = s4\<lparr>fs := unlink download_file (fs s4)\<rparr>
                   in (r, logger_info ''Cleaned up temporary download file'' s5))))"

text \<open>The dictionary \<open>new_info\<close> of \<open>process_package\<close>, in the order the source writes it.\<close>

definition new_info :: "args \<Rightarrow> dict" where
  "new_info p_args =
     [(''version'', or_empty (version p_args)),
      (''git_tag'', or_empty (git_tag p_args)),
      (''github_repository'', or_empty (github_repository p_args)),
      (''git_repository'', or_empty (git_repository p_args)),
      (''url'', or_empty (url p_args))]"

text \<open>
  The end of \<open>process_package\<close>, from \<open># Download if not cached\<close> on: the source is
  chosen, the package fetched, and the metadata saved.
\<close>

definition fetch_package :: "env \<Rightarrow> path \<Rightarrow> args \<Rightarrow> world \<Rightarrow> (exn + unit) \<times> world" where
  "fetch_package e cd p_args s =
     (let name' = name p_args;
          package_dir = get_package_dir cd name';
          s1 = logger_info ''Package not in cache, downloading...'' s;
          git_repo = (if truthy (github_repository p_args)
                      then Some (''https://github.com/'' @ the (github_repository p_args) @ ''.git'')
                      else git_repository p_args);
          s2 = (if truthy (github_repository p_args)
                then logger_info (''Using GitHub repository: '' @ the (github_repository p_args)) s1
                else if truthy git_repo
                then logger_info (''Using git repository: '' @ the git_repo) s1
                else s1);
          fetched =
            (if truthy git_repo then
               (let git_tag' = (if truthy (git_tag p_args) then git_tag p_args
                                else if truthy (version p_args)
                                then Some (''v'' @ the (version p_args)) else None)
                in clone_repo e cd name' (the git_repo) git_tag' s2)
             else if truthy (url p_args) then
               download_archive e cd name' (the (url p_args))
                 (logger_info (''Using URL: '' @ the (url p_args)) s2)
             else (Inl (Exception (''No source specified for '' @ name')), s2))
      in case fetched of
           (Inl err, s3) \<Rightarrow> (Inl err, s3)
         | (Inr u, s3) \<Rightarrow>
             (let s4 = logger_info ''Saving package metadata...'' s3;
                  s5 = save_cached_info cd name' (new_info p_args) s4
              in (Inr (), logger_success (str_path package_dir) s5)))"

text \<open>\<open>package_manager.process_package\<close>\<close>

definition process_package :: "env \<Rightarrow> path \<Rightarrow> args \<Rightarrow> world \<Rightarrow> (exn + unit) \<times> world" where
  "process_package e cd p_args s =
     (let name' = name p_args;
          package_dir = get_package_dir cd name';
          s1 = logger_info (''Processing package: '' @ name') s;
          s2 = (if truthy (version p_args)
                then logger_info (''Version: '' @ the (version p_args)) s1 else s1);
          s3 = (if truthy (git_tag p_args)
                then logger_info (''Git tag: '' @ the (git_tag p_args)) s2 else s2);
          s4 = logger_info ''Checking cache validity...'' s3
      in case (if path_exists (fs s4) package_dir
               then needs_refetch e cd name' (new_info p_args) s4 else (Inr False, s4)) of
           (Inl err, s5) \<Rightarrow> (Inl err, s5)
         | (Inr stale, s5) \<Rightarrow>
             (let s6 = (if stale then clear_package cd name' (logger_status ''REFETCH'' name' s5)
                        else s5)
              in if path_exists (fs s6) package_dir then
                   (if keep_updated p_args
                       \<and> (truthy (git_repository p_args) \<or> truthy (github_repository p_args))
                    then
                      (let s7 = logger_status ''UPDATE'' name' s6;
                           s8 = logger_info ''Attempting to update existing package...'' s7
                       in case update_repo e cd name' s8 of
                            (Inl err, s9) \<Rightarrow> (Inl err, s9)
                          | (Inr updated, s9) \<Rightarrow>
                              if \<not> updated then
                                fetch_package e cd p_args
                                  (clear_package cd name'
                                     (logger_info ''Update failed, clearing cache for refetch...'' s9))
                              else (Inr (), logger_status ''EXISTS'' (str_path package_dir) s9))
                    else
                      (let s7 = logger_status ''CACHED'' name' s6;
                           s8 = logger_info ''Using cached package'' s7
                       in (Inr (), logger_status ''EXISTS'' (str_path package_dir) s8)))
                 else fetch_package e cd p_args s6))"

text \<open>\<open>main\<close>, after the command line was parsed.\<close>

definition main :: "env \<Rightarrow> args \<Rightarrow> world \<Rightarrow> (exn + unit) \<times> world" where
  "main e a s =
     (let s1 = package_manager_init (cache_dir a) s
      in if clear_cache a then
           (let s2 = (if truthy (clear_package_arg a)
                      then clear_package (cache_dir a) (the (clear_package_arg a)) s1
                      else s1\<lparr>fs := mkdir_parents (cache_dir a) (rmtree (cache_dir a) (fs s1))\<rparr>)
            in (Inr (), logger_info ''CLEARED'' s2))
         else process_package e (cache_dir a) a s1)"

section \<open>Definitions for the proofs\<close>

text \<open>
  For the proofs, the body of \<open>process_package\<close> is cut in three: the lines it writes
  first, the cache check with the invalidation, and the choice between reuse, update and
  fetch. \<open>process_package_stages\<close> below shows that the function is their composition.
\<close>

definition announce :: "args \<Rightarrow> world \<Rightarrow> world" where
  "announce p_args s =
     (let s1 = logger_info (''Processing package: '' @ name p_args) s;
          s2 = (if truthy (version p_args)
                then logger_info (''Version: '' @ the (version p_args)) s1 else s1);
          s3 = (if truthy (git_tag p_args)
                then logger_info (''Git tag: '' @ the (git_tag p_args)) s2 else s2)
      in logger_info ''Checking cache validity...'' s3)"

definition reuse_or_fetch :: "env \<Rightarrow> path \<Rightarrow> args \<Rightarrow> world \<Rightarrow> (exn + unit) \<times> world" where
  "reuse_or_fetch e cd p_args s6 =
     (let name' = name p_args;
          package_dir = get_package_dir cd name'
      in if path_exists (fs s6) package_dir then
           (if keep_updated p_args
               \<and> (truthy (git_repository p_args) \<or> truthy (github_repository p_args))
            then
              (let s7 = logger_status ''UPDATE'' name' s6;
                   s8 = logger_info ''Attempting to update existing package...'' s7
               in case update_repo e cd name' s8 of
                    (Inl err, s9) \<Rightarrow> (Inl err, s9)
                  | (Inr updated, s9) \<Rightarrow>
                      if \<not> updated then
                        fetch_package e cd p_args
                          (clear_package cd name'
                             (logger_info ''Update failed, clearing cache for refetch...'' s9))
                      else (Inr (), logger_status ''EXISTS'' (str_path package_dir) s9))
            else
              (let s7 = logger_status ''CACHED'' name' s6;
                   s8 = logger_info ''Using cached package'' s7
               in (Inr (), logger_status ''EXISTS'' (str_path package_dir) s8)))
         else fetch_package e cd p_args s6)"

text \<open>The repository and the tag that \<open>process_package\<close> hands to \<open>clone_repo\<close>.\<close>

definition git_source :: "args \<Rightarrow> string" where
  "git_source a =
     (if truthy (github_repository a)
      then ''https://github.com/'' @ the (github_repository a) @ ''.git''
      else the (git_repository a))"

definition clone_tag :: "args \<Rightarrow> string option" where
  "clone_tag a =
     (if truthy (git_tag a) then git_tag a
      else if truthy (version a) then Some (''v'' @ the (version a)) else None)"

text \<open>The message of the exception that ends the retry loop.\<close>

definition failure_message :: "int \<Rightarrow> string \<Rightarrow> string" where
  "failure_message n err = ''Failed to download after '' @ str_int n @ '' attempts: '' @ err"

text \<open>
  The rest of a member name, as the extraction joins it to the package directory, stays
  below that directory when it is relative and has no component \<open>..\<close>. An archive is
  \<open>contained\<close> when this holds of every rest that its extraction joins: the names cut
  after the common prefix where the prefix is stripped, the names themselves where a tar
  archive is extracted as it is. (\<open>ZipFile.extractall\<close> cleans the names itself.)
\<close>

definition safe_tail :: "string \<Rightarrow> bool" where
  "safe_tail t = (take 1 t \<noteq> ''/'' \<and> ''..'' \<notin> set (parts t))"



text \<open>
  A decoder for the head of an escaped string, the inverse of \<open>escape_char\<close>: it shows
  that the escapes can be read back.
\<close>

definition hex_value :: "char \<Rightarrow> nat" where
  "hex_value c = length (takeWhile (\<lambda>x. x \<noteq> c) ''0123456789abcdef'')"

fun unescape_head :: "string \<Rightarrow> (char \<times> string) option" where
  "unescape_head [] = None"
| "unescape_head (h # t) =
     (if h \<noteq> backslash then Some (h, t)
      else (case t of
              [] \<Rightarrow> None
            | k # t' \<Rightarrow>
                if k = backslash then Some (backslash, t')
                else if k = dquote then Some (dquote, t')
                else if k = CHR ''b'' then Some (CHR 0x08, t')
                else if k = CHR ''f'' then Some (CHR 0x0C, t')
                else if k = CHR ''n'' then Some (CHR 0x0A, t')
                else if k = CHR ''r'' then Some (CHR 0x0D, t')
                else if k = CHR ''t'' then Some (CHR 0x09, t')
                else (case t' of
                        a # b # x # y # t'' \<Rightarrow> Some (char_of (16 * hex_value x + hex_value y), t'')
                      | _ \<Rightarrow> None)))"

section \<open>Concrete worlds\<close>

text \<open>The inputs at which the witnesses and the counterexamples are evaluated.\<close>

definition ok_result :: proc_result where
  "ok_result = \<lparr>timed_out = False, returncode = 0, stderr = [], exc_text = [], leaves_dest = True\<rparr>"

text \<open>An environment without a network, in which every command succeeds.\<close>

definition offline_env :: env where
  "offline_env = \<lparr>sha256_hexdigest = rev,
     urlopen = (\<lambda>u n. OpenFailed ''<urlopen error timed out>''),
     subprocess_run = (\<lambda>c. ok_result)\<rparr>"

definition empty_world :: world where
  "empty_world = \<lparr>fs = (\<lambda>p. None), out = [], metadata_cache = (\<lambda>n. None), slept = [],
     requests = [], procs = []\<rparr>"

text \<open>The package \<open>lib\<close> under the cache directory \<open>cache\<close>, with no source given.\<close>

definition lib_args :: args where
  "lib_args = \<lparr>cache_dir = [''cache''], name = ''lib'', version = None, git_tag = None,
     github_repository = None, git_repository = None, url = None, keep_updated = False,
     download_only = False, options = None, clear_cache = False, clear_package_arg = None\<rparr>"

text \<open>A package directory without a cache record.\<close>

definition stale_world :: world where
  "stale_world = empty_world\<lparr>fs := map_of
     [([''cache''], Dir), ([''cache'', ''lib''], Dir), ([''cache'', ''lib'', ''lib''], Dir)]\<rparr>"

text \<open>A package directory whose cache record is not a JSON document.\<close>

definition corrupt_world :: world where
  "corrupt_world = empty_world\<lparr>fs := map_of
     [([''cache''], Dir), ([''cache'', ''lib''], Dir), ([''cache'', ''lib'', ''lib''], Dir),
      ([''cache'', ''lib'', ''CACHE''], Dir),
      ([''cache'', ''lib'', ''CACHE'', ''.cache''], File (Bytes ''{version''))]\<rparr>"

text \<open>A zip archive whose entries lie under the single directory \<open>foo-1.0\<close>.\<close>

definition lib_zip :: content where
  "lib_zip = ZipArchive [ZipEntry ''foo-1.0/'' (Intact []), ZipEntry ''foo-1.0/a.txt'' (Intact ''hi'')]"

text \<open>A network whose first answer breaks off after two bytes and whose second is complete.\<close>

definition flaky_env :: env where
  "flaky_env = offline_env\<lparr>urlopen :=
     (\<lambda>u n. if n = 0 then ReadFailed (Bytes ''PK'') ''The read operation timed out''
            else Body lib_zip)\<rparr>"

text \<open>A network on which every read breaks off after two bytes.\<close>

definition stalling_env :: env where
  "stalling_env = offline_env\<lparr>urlopen :=
     (\<lambda>u n. ReadFailed (Bytes ''PK'') ''The read operation timed out'')\<rparr>"

text \<open>The same tree as \<open>lib_zip\<close>, as a tar archive.\<close>

definition lib_tar :: content where
  "lib_tar = TarArchive [TarEntry ''foo-1.0'' TarDir, TarEntry ''foo-1.0/a.txt'' (TarFile ''hi'')]"

text \<open>A zip archive whose entries share two directory levels.\<close>

definition deep_zip :: content where
  "deep_zip = ZipArchive [ZipEntry ''foo-1.0/src/a.txt'' (Intact ''hi''),
     ZipEntry ''foo-1.0/src/b.txt'' (Intact ''ho'')]"

text \<open>A network that serves these archives.\<close>

definition mirror_env :: env where
  "mirror_env = offline_env\<lparr>urlopen :=
     (\<lambda>u n. if suffix ''.zip'' u then (if suffix ''deep.zip'' u then Body deep_zip else Body lib_zip)
            else Body lib_tar)\<rparr>"

text \<open>The package \<open>lib\<close> from an archive, and networks that serve an empty and a damaged archive.\<close>

definition url_args :: args where
  "url_args = lib_args\<lparr>url := Some ''https://example.org/lib.zip''\<rparr>"

definition empty_zip_env :: env where
  "empty_zip_env = offline_env\<lparr>urlopen := (\<lambda>u n. Body (ZipArchive []))\<rparr>"




text \<open>The package \<open>lib\<close> from a git repository, kept updated; commands that fail.\<close>

definition git_args :: args where
  "git_args = lib_args\<lparr>git_repository := Some ''https://example/lib.git'', keep_updated := True\<rparr>"




text \<open>
  A network that serves an archive with a member name that climbs out of the package
  directory once the common prefix \<open>x/y\<close> is cut off, followed by a damaged member.
\<close>

definition traversal_env :: env where
  "traversal_env = offline_env\<lparr>urlopen := (\<lambda>u n. Body (ZipArchive
     [ZipEntry ''x/y/../CACHE/.cache'' (Intact ''{}''), ZipEntry ''x/y/b.txt'' (Damaged ''h'')]))\<rparr>"

text \<open>A package directory with the record of \<open>git_args\<close>.\<close>

definition cached_world :: world where
  "cached_world = empty_world\<lparr>fs := map_of
     [([''cache''], Dir), ([''cache'', ''lib''], Dir), ([''cache'', ''lib'', ''lib''], Dir),
      ([''cache'', ''lib'', ''CACHE''], Dir),
      ([''cache'', ''lib'', ''CACHE'', ''.cache''], File (Json (new_info git_args)))]\<rparr>"

section \<open>Basic facts\<close>

lemma logger_log_simps [simp]:
  "fs (logger_log m s) = fs s"
  "metadata_cache (logger_log m s) = metadata_cache s"
  "slept (logger_log m s) = slept s"
  "requests (logger_log m s) = requests s"
  "procs (logger_log m s) = procs s"
  "out (logger_log m s) = out s @ [''-- '' @ m @ [newline]]"
  by (simp_all add: logger_log_def)

lemma process_package_stages:
  "process_package e cd a s =
     (case (if path_exists (fs (announce a s)) (get_package_dir cd (name a))
            then needs_refetch e cd (name a) (new_info a) (announce a s)
            else (Inr False, announce a s)) of
        (Inl err, s5) \<Rightarrow> (Inl err, s5)
      | (Inr stale, s5) \<Rightarrow>
          reuse_or_fetch e cd a
            (if stale then clear_package cd (name a) (logger_status ''REFETCH'' (name a) s5)
             else s5))"
  unfolding process_package_def announce_def reuse_or_fetch_def Let_def by (rule refl)

lemma logger_simps [simp]:
  "fs (logger_info m s) = fs s" "fs (logger_error m s) = fs s" "fs (logger_success m s) = fs s"
  "fs (logger_status st n s) = fs s"
  "procs (logger_info m s) = procs s" "procs (logger_error m s) = procs s" "procs (logger_success m s) = procs s"
  "procs (logger_status st n s) = procs s"
  "metadata_cache (logger_info m s) = metadata_cache s" "metadata_cache (logger_error m s) = metadata_cache s"
  "metadata_cache (logger_success m s) = metadata_cache s"
  "metadata_cache (logger_status st n s) = metadata_cache s"
  by (simp_all add: logger_info_def logger_error_def logger_success_def logger_status_def)

lemma announce_simps [simp]:
  "fs (announce a s) = fs s" "procs (announce a s) = procs s"
  "metadata_cache (announce a s) = metadata_cache s"
  by (simp_all add: announce_def Let_def)

lemma process_package_absent:
  assumes "\<not> path_exists (fs s) (get_package_dir cd (name a))"
  shows "process_package e cd a s = fetch_package e cd a (announce a s)"
  using assms by (simp add: process_package_stages reuse_or_fetch_def)

lemma full_clone_procs:
  "full_clone e r d t s = (res, s') \<Longrightarrow> procs s' = procs s @ [clone_command r d t]"
  by (auto simp add: full_clone_def run_command_def Let_def split: if_splits)

lemma clone_repo_procs:
  "clone_repo e cd n r t s = (res, s') \<Longrightarrow> procs s' = procs s @ [clone_command r (get_package_dir cd n) t]"
  by (auto simp add: clone_repo_def Let_def split: prod.splits sum.splits if_splits dest!: full_clone_procs)

lemma save_cached_info_procs [simp]: "procs (save_cached_info cd n i s) = procs s"
  by (simp add: save_cached_info_def get_cache_file_def Let_def)

lemma truthy_simps [simp]: "truthy None = False" "truthy (Some x) = (x \<noteq> [])"
  by (simp_all add: truthy_def)

lemma fetch_package_git:
  assumes "truthy (github_repository a) \<or> truthy (git_repository a)"
  shows "fetch_package e cd a s =
     (case clone_repo e cd (name a) (git_source a) (clone_tag a)
             (if truthy (github_repository a)
                then logger_info (''Using GitHub repository: '' @ the (github_repository a)) (logger_info ''Package not in cache, downloading...'' s)
                else logger_info (''Using git repository: '' @ the (git_repository a)) (logger_info ''Package not in cache, downloading...'' s)) of
        (Inl err, s3) \<Rightarrow> (Inl err, s3)
      | (Inr u, s3) \<Rightarrow>
          (Inr (), logger_success (str_path (get_package_dir cd (name a)))
             (save_cached_info cd (name a) (new_info a) (logger_info ''Saving package metadata...'' s3))))"
proof (cases "truthy (github_repository a)")
  case True
  then show ?thesis
    by (simp add: fetch_package_def Let_def git_source_def clone_tag_def cong: prod.case_cong sum.case_cong)
next
  case False
  with assms have "truthy (git_repository a)" by simp
  with False show ?thesis
    by (simp add: fetch_package_def Let_def git_source_def clone_tag_def cong: prod.case_cong sum.case_cong)
qed

lemma fetch_package_procs_git:
  assumes "truthy (github_repository a) \<or> truthy (git_repository a)"
  shows "procs (snd (fetch_package e cd a s)) =
     procs s @ [clone_command (git_source a) (get_package_dir cd (name a)) (clone_tag a)]"
proof -
  let ?s2 = "(if truthy (github_repository a)
                then logger_info (''Using GitHub repository: '' @ the (github_repository a)) (logger_info ''Package not in cache, downloading...'' s)
                else logger_info (''Using git repository: '' @ the (git_repository a)) (logger_info ''Package not in cache, downloading...'' s))"
  obtain r s3 where c: "clone_repo e cd (name a) (git_source a) (clone_tag a) ?s2 = (r, s3)"
    by fastforce
  from clone_repo_procs[OF c] have "procs s3 = procs s @ [clone_command (git_source a) (get_package_dir cd (name a)) (clone_tag a)]"
    by simp
  then show ?thesis
    unfolding fetch_package_git[OF assms] c by (cases r) simp_all
qed

lemma fetch_package_no_source:
  assumes "\<not> truthy (github_repository a)" "\<not> truthy (git_repository a)" "\<not> truthy (url a)"
  shows "fetch_package e cd a s = (Inl (Exception (''No source specified for '' @ name a)),
       logger_info ''Package not in cache, downloading...'' s)"
  using assms by (simp add: fetch_package_def Let_def)

lemma is_cache_valid_out:
  "is_cache_valid e cd n i p (s\<lparr>out := x\<rparr>) =
     (fst (is_cache_valid e cd n i p s), (snd (is_cache_valid e cd n i p s))\<lparr>out := x\<rparr>)"
  by (simp add: is_cache_valid_def Let_def split: option.splits sum.splits)

lemma announce_out: "announce a s = s\<lparr>out := out (announce a s)\<rparr>"
  by (simp add: announce_def Let_def logger_info_def logger_log_def)

lemma is_cache_valid_fs:
  "fs (snd (is_cache_valid e cd n i p s)) = fs s"
  by (simp add: is_cache_valid_def Let_def split: option.splits sum.splits)

lemma parent_prefix_package_dir [simp]: "prefix (pjoin cd n) (get_package_dir cd n)"
  by (simp add: get_package_dir_def pjoin_def)



lemma rmtree_below: "prefix p q \<Longrightarrow> rmtree p f q = None"
  unfolding rmtree_def using in_set_prefixes[of p q] by auto


lemma clear_package_fs:
  "path_exists (fs s) (pjoin cd n) \<Longrightarrow> fs (clear_package cd n s) = rmtree (pjoin cd n) (fs s)"
  by (simp add: clear_package_def Let_def)

lemma announce_emitted [simp]:
  "emitted ''REFETCH'' n (announce a s) = emitted ''REFETCH'' n s"
  by (simp add: emitted_def status_line_def announce_def Let_def logger_info_def)

lemma logger_more_simps [simp]:
  "slept (logger_info m s) = slept s" "slept (logger_error m s) = slept s"
  "requests (logger_info m s) = requests s" "requests (logger_error m s) = requests s"
  by (simp_all add: logger_info_def logger_error_def)

lemma write_file_twice [simp]: "write_file d c (write_file d c' f) = write_file d c f"
  by (rule ext) (simp add: write_file_def)

lemma write_file_same [simp]: "write_file d c f d = Some (File c)"
  by (simp add: write_file_def)

lemma unlink_same [simp]: "unlink d f d = None"
  by (simp add: unlink_def)

section \<open>The retry loop\<close>

lemma retry_loop_all_fail:
  assumes "j < n" and "\<forall>i. j \<le> i \<and> i < n \<longrightarrow> attempt_error (urlopen e u i) \<noteq> None"
  shows "fst (retry_loop e u d (int n) [j..<n] s) =
           Inl (Exception (failure_message (int n) (the (attempt_error (urlopen e u (n - 1))))))
         \<and> slept (snd (retry_loop e u d (int n) [j..<n] s)) = slept s @ map (\<lambda>i. 2 ^ i) [j..<n - 1]
         \<and> requests (snd (retry_loop e u d (int n) [j..<n] s)) = requests s @ replicate (n - j) u"
  using assms
proof (induction "n - j" arbitrary: j s)
  case 0
  then show ?case by simp
next
  case (Suc m)
  from Suc.prems have l: "[j..<n] = j # [Suc j..<n]" by (simp add: upt_conv_Cons)
  from Suc.prems obtain err where err: "attempt_error (urlopen e u j) = Some err" by auto
  show ?case
  proof (cases "Suc j < n")
    case True
    then have m: "m = n - Suc j" using Suc.hyps(2) by simp
    have a: "\<forall>i. Suc j \<le> i \<and> i < n \<longrightarrow> attempt_error (urlopen e u i) \<noteq> None"
      using Suc.prems(2) by simp
    have t: "int j < int n - 1" using True by simp
    have u: "[j..<n - 1] = j # [Suc j..<n - 1]" using True by (simp add: upt_conv_Cons)
    have r: "replicate (n - j) u = u # replicate (n - Suc j) u"
      using True by (metis Suc_diff_Suc Suc_lessD replicate_Suc)
    note ih = Suc.hyps(1)[OF m True a]
    show ?thesis
      unfolding l retry_loop.simps Let_def err option.case if_P[OF t]
      by (simp only: ih u r) (simp split: option.splits)
  next
    case False
    with Suc.prems have j: "n = Suc j" by simp
    have t: "\<not> int j < int n - 1" using j by simp
    show ?thesis
      unfolding l retry_loop.simps Let_def err option.case if_not_P[OF t]
      using err by (simp add: failure_message_def j split: option.splits)
  qed
qed

lemma retry_loop_success:
  assumes "j \<le> k" and "k < n"
    and "\<forall>i. j \<le> i \<and> i < k \<longrightarrow> attempt_error (urlopen e u i) \<noteq> None"
    and "urlopen e u k = Body c"
  shows "fst (retry_loop e u d (int n) [j..<n] s) = Inr True
         \<and> fs (snd (retry_loop e u d (int n) [j..<n] s)) = write_file d c (fs s)
         \<and> slept (snd (retry_loop e u d (int n) [j..<n] s)) = slept s @ map (\<lambda>i. 2 ^ i) [j..<k]
         \<and> requests (snd (retry_loop e u d (int n) [j..<n] s)) = requests s @ replicate (Suc k - j) u"
  using assms
proof (induction "k - j" arbitrary: j s)
  case 0
  then have jk: "j = k" by simp
  from 0 have l: "[j..<n] = j # [Suc j..<n]" by (simp add: upt_conv_Cons)
  show ?case
    unfolding l retry_loop.simps Let_def
    using 0(5) by (simp add: jk attempt_error_def attempt_written_def)
next
  case (Suc m)
  then have jk: "j < k" "Suc j \<le> k" by simp_all
  from Suc.prems jk have l: "[j..<n] = j # [Suc j..<n]" by (simp add: upt_conv_Cons)
  from Suc.prems jk obtain err where err: "attempt_error (urlopen e u j) = Some err" by auto
  have m: "m = k - Suc j" using Suc.hyps(2) by simp
  have a: "\<forall>i. Suc j \<le> i \<and> i < k \<longrightarrow> attempt_error (urlopen e u i) \<noteq> None"
    using Suc.prems(3) by simp
  have t: "int j < int n - 1" using jk Suc.prems(2) by simp
  have u: "[j..<k] = j # [Suc j..<k]" using jk by (simp add: upt_conv_Cons)
  have r: "replicate (Suc k - j) u = u # replicate (Suc k - Suc j) u"
    using jk by (metis Suc_diff_le Suc_leI diff_Suc_Suc less_imp_le_nat replicate_Suc)
  note ih = Suc.hyps(1)[OF m jk(2) Suc.prems(2) a Suc.prems(4)]
  show ?case
    unfolding l retry_loop.simps Let_def err option.case if_P[OF t]
    by (simp only: ih u r) (simp split: option.splits)
qed

section \<open>What the acquisition leaves untouched\<close>



















lemma retry_loop_error:
  "fst (retry_loop e u d n l s) = Inl x \<Longrightarrow> \<exists>m. x = Exception (failure_message n m)"
proof (induction l arbitrary: s)
  case Nil
  then show ?case by simp
next
  case (Cons a l)
  from Cons.prems show ?case
    unfolding retry_loop.simps Let_def
    by (auto simp add: failure_message_def split: option.splits if_splits dest: Cons.IH)
qed









lemma retry_loop_answer:
  "l \<noteq> [] \<Longrightarrow> \<not> int (last l) < n - 1 \<Longrightarrow> fst (retry_loop e u d n l s) \<noteq> Inr False"
proof (induction l arbitrary: s)
  case Nil
  then show ?case by simp
next
  case (Cons i l)
  show ?case
  proof (cases "l = []")
    case True
    with Cons.prems show ?thesis
      unfolding retry_loop.simps Let_def by (simp split: option.splits)
  next
    case False
    with Cons.prems have "\<not> int (last l) < n - 1" by simp
    note ih = Cons.IH[OF False this]
    show ?thesis
      unfolding retry_loop.simps Let_def using ih by (simp split: option.splits)
  qed
qed

lemma download_with_retry_answer:
  "fst (download_with_retry e u d 3 s) = Inr b \<Longrightarrow> b"
  using retry_loop_answer[of "[0..<nat 3]" 3 e u d s]
  by (cases b) (simp_all add: download_with_retry_def)



lemma download_archive_cleans_up:
  "fs (snd (download_archive e cd n u s)) (pjoin cd (n @ ''_download'')) = None
   \<or> (\<exists>m. fst (download_archive e cd n u s) = Inl (Exception (failure_message 3 m)))"
proof -
  let ?pd = "get_package_dir cd n"
  let ?df = "pjoin cd (n @ ''_download'')"
  let ?s2 = "logger_info (''Starting archive download for package: '' @ n)
      (s\<lparr>fs := mkdir_parents (parent ?pd) (fs s)\<rparr>)"
  obtain r s3 where d: "download_with_retry e u ?df 3 ?s2 = (r, s3)" by fastforce
  show ?thesis
  proof (cases r)
    case (Inl x)
    then have "fst (retry_loop e u ?df 3 [0..<nat 3] ?s2) = Inl x"
      using d by (simp add: download_with_retry_def)
    from retry_loop_error[OF this] obtain m where "x = Exception (failure_message 3 m)" ..
    then show ?thesis
      unfolding download_archive_def Let_def d using Inl by auto
  next
    case (Inr b)
    then show ?thesis
      unfolding download_archive_def Let_def d by (simp add: split_beta)
  qed
qed




section \<open>The cache record after a fetch\<close>



lemma fetch_package_url:
  assumes "\<not> truthy (github_repository a)" and "\<not> truthy (git_repository a)"
    and "truthy (url a)"
  shows "fetch_package e cd a s =
     (case download_archive e cd (name a) (the (url a))
             (logger_info (''Using URL: '' @ the (url a))
                (logger_info ''Package not in cache, downloading...'' s)) of
        (Inl err, s3) \<Rightarrow> (Inl err, s3)
      | (Inr u, s3) \<Rightarrow>
          (Inr (), logger_success (str_path (get_package_dir cd (name a)))
             (save_cached_info cd (name a) (new_info a) (logger_info ''Saving package metadata...'' s3))))"
  using assms
  by (simp add: fetch_package_def Let_def cong: prod.case_cong sum.case_cong)


lemma is_cache_valid_announce:
  "is_cache_valid e cd n i p (announce a s) =
     (fst (is_cache_valid e cd n i p s), (snd (is_cache_valid e cd n i p s))\<lparr>out := out (announce a s)\<rparr>)"
  using is_cache_valid_out[where s = s and x = "out (announce a s)"] announce_out[of a s]
  by simp



lemma literal_paths:
  "get_package_dir [''cache''] ''lib'' = [''cache'', ''lib'', ''lib'']"
  "pjoin [''cache''] ''lib'' = [''cache'', ''lib'']"
  "pjoin [''cache'', ''lib''] ''CACHE'' = [''cache'', ''lib'', ''CACHE'']"
  "pjoin [''cache'', ''lib'', ''CACHE''] ''.cache'' = [''cache'', ''lib'', ''CACHE'', ''.cache'']"
  by (simp_all add: get_package_dir_def pjoin_def parts_def)

section \<open>The outcome of a fetch\<close>

text \<open>
  Whether a clone, a download or an extraction raises, and what it raises, is decided by
  what the network and the commands answer: it does not depend on the state in which the
  fetch begins.
\<close>

lemma clone_repo_result:
  "fst (clone_repo e cd n r t s) =
     (if timed_out (subprocess_run e (clone_command r (get_package_dir cd n) t))
      then Inl (TimeoutExpired (exc_text (subprocess_run e (clone_command r (get_package_dir cd n) t))))
      else if returncode (subprocess_run e (clone_command r (get_package_dir cd n) t)) = 0 then Inr ()
      else Inl (Exception (''Failed to clone '' @ n @ '' from '' @ r)))"
  by (simp add: clone_repo_def full_clone_def run_command_def Let_def)

lemma copy_member_result: "\<exists>r. \<forall>t f. fst (copy_member ms n t f) = r"
  by (rule exI[of _ "fst (copy_member ms n [] (\<lambda>q. None))"])
    (simp add: copy_member_def split: option.splits member_body.splits)

lemma zip_strip_loop_result:
  "\<exists>r. \<forall>idx s. fst (zip_strip_loop ms cp pd idx names s) = r"
proof (induction names)
  case Nil
  then show ?case by simp
next
  case (Cons member rest)
  then obtain r0 where ih: "\<And>idx s. fst (zip_strip_loop ms cp pd idx rest s) = r0" by blast
  obtain rc where cm: "\<And>t f. fst (copy_member ms member t f) = rc"
    using copy_member_result by blast
  let ?t = "pjoin pd (drop (length cp + 1) member)"
  have "fst (zip_strip_loop ms cp pd idx (member # rest) s) =
      (if prefix cp member \<and> \<not> suffix ''/'' member
       then (case rc of Inl err \<Rightarrow> Inl err | Inr u \<Rightarrow> r0) else r0)" for idx s
  proof -
    let ?s1 = "(if idx mod 100 = 0 \<and> idx > 0
                then logger_info (''Extracted '' @ str_nat idx @ ''/''
                       @ str_nat (length ms) @ '' files...'') s
                else s)"
    obtain r f where c: "copy_member ms member ?t (mkdir_parents (parent ?t) (fs ?s1)) = (r, f)"
      by fastforce
    have r: "r = rc" using cm[of ?t "mkdir_parents (parent ?t) (fs ?s1)"] c by simp
    show ?thesis
      unfolding zip_strip_loop.simps Let_def c r
      using ih by (cases rc) (simp_all del: logger_simps)
  qed
  then show ?case by blast
qed

lemma zip_extractall_result:
  "\<exists>r. \<forall>f. fst (zip_extractall ms pd names f) = r"
proof (induction names)
  case Nil
  then show ?case by simp
next
  case (Cons member rest)
  then obtain r0 where ih: "\<And>f. fst (zip_extractall ms pd rest f) = r0" by blast
  obtain rc where cm: "\<And>t f. fst (copy_member ms member t f) = rc"
    using copy_member_result by blast
  let ?t = "zip_target pd member"
  have "fst (zip_extractall ms pd (member # rest) f) =
      (if \<not> suffix ''/'' member
       then (case rc of Inl err \<Rightarrow> Inl err | Inr u \<Rightarrow> r0) else r0)" for f
  proof -
    obtain r f2 where c: "copy_member ms member ?t (mkdir_parents (parent ?t) f) = (r, f2)"
      by fastforce
    have r: "r = rc" using cm[of ?t "mkdir_parents (parent ?t) f"] c by simp
    show ?thesis
      unfolding zip_extractall.simps Let_def c r
      using ih by (cases rc) simp_all
  qed
  then show ?case by blast
qed

lemma extract_zip_result:
  "\<exists>r. \<forall>s. fs s df = x \<longrightarrow> fst (extract_zip df pd s) = r"
proof (cases "\<exists>ms. x = Some (File (ZipArchive ms))")
  case False
  then show ?thesis
    by (intro exI[of _ "fst (extract_zip df pd (empty_world\<lparr>fs := (\<lambda>q. x)\<rparr>))"])
      (auto simp add: extract_zip_def Let_def split: option.splits node.splits content.splits)
next
  case True
  then obtain ms where ms: "x = Some (File (ZipArchive ms))" ..
  let ?cp = "(if map zname ms \<noteq> [] then commonpath (map zname ms) else Inr [])"
  show ?thesis
  proof (cases ?cp)
    case (Inl err)
    then show ?thesis
      by (intro exI[of _ "Inl err"]) (simp add: extract_zip_def Let_def ms)
  next
    case (Inr cp)
    obtain r1 where r1: "\<And>idx s. fst (zip_strip_loop ms cp pd idx (map zname ms) s) = r1"
      using zip_strip_loop_result by blast
    obtain r2 where r2: "\<And>f. fst (zip_extractall ms pd (map zname ms) f) = r2"
      using zip_extractall_result by blast
    show ?thesis
      using Inr r1 r2
      by (intro exI[of _ "if cp \<noteq> [] \<and> CHR ''/'' \<in> set cp then r1 else r2"])
        (simp add: extract_zip_def Let_def ms split_beta)
  qed
qed

lemma extract_tar_result:
  "\<exists>r. \<forall>s. fs s df = x \<longrightarrow> fst (extract_tar df pd s) = r"
  by (intro exI[of _ "fst (extract_tar df pd (empty_world\<lparr>fs := (\<lambda>q. x)\<rparr>))"])
    (auto simp add: extract_tar_def Let_def split: option.splits node.splits content.splits sum.splits)

lemma extract_archive_result:
  "\<exists>r. \<forall>s. fs s df = x \<longrightarrow> fst (extract_archive n u df pd s) = r"
proof -
  obtain r1 where r1: "\<And>s. fs s df = x \<Longrightarrow> fst (extract_zip df pd s) = r1"
    using extract_zip_result by blast
  obtain r2 where r2: "\<And>s. fs s df = x \<Longrightarrow> fst (extract_tar df pd s) = r2"
    using extract_tar_result by blast
  have "fst (extract_archive n u df pd s) = (if suffix ''.zip'' u then r1 else r2)"
    if "fs s df = x" for s
    using r1[of "logger_info (''Extracting archive for '' @ n @ ''...'') s"]
      r2[of "logger_info (''Extracting archive for '' @ n @ ''...'') s"] that
    by (simp add: extract_archive_def Let_def split_beta split: sum.splits)
  then show ?thesis by blast
qed

lemma retry_loop_result:
  "\<exists>r c. \<forall>s. fst (retry_loop e u d n l s) = r
      \<and> (r = Inr True \<longrightarrow> fs (snd (retry_loop e u d n l s)) d = Some (File c))"
proof (induction l)
  case Nil
  then show ?case by simp
next
  case (Cons i l)
  then obtain r0 c0 where ih: "\<And>s. fst (retry_loop e u d n l s) = r0"
      "\<And>s. r0 = Inr True \<Longrightarrow> fs (snd (retry_loop e u d n l s)) d = Some (File c0)"
    by blast
  show ?case
  proof (cases "urlopen e u i")
    case (Body c)
    then show ?thesis
      unfolding retry_loop.simps Let_def
      by (intro exI[of _ "Inr True"] exI[of _ c])
        (simp add: attempt_error_def attempt_written_def)
  next
    case (OpenFailed err)
    then show ?thesis
      unfolding retry_loop.simps Let_def
      using ih
      by (intro exI[of _ "if int i < n - 1 then r0
            else Inl (Exception (''Failed to download after '' @ str_int n @ '' attempts: '' @ err))"]
          exI[of _ c0])
        (simp add: attempt_error_def attempt_written_def)
  next
    case (ReadFailed c err)
    then show ?thesis
      unfolding retry_loop.simps Let_def
      using ih
      by (intro exI[of _ "if int i < n - 1 then r0
            else Inl (Exception (''Failed to download after '' @ str_int n @ '' attempts: '' @ err))"]
          exI[of _ c0])
        (simp add: attempt_error_def attempt_written_def)
  qed
qed

lemma download_archive_result:
  "\<exists>r. \<forall>s. fst (download_archive e cd n u s) = r"
proof -
  let ?pd = "get_package_dir cd n"
  let ?df = "pjoin cd (n @ ''_download'')"
  obtain r0 c0 where rl: "\<And>s. fst (download_with_retry e u ?df 3 s) = r0"
      "\<And>s. r0 = Inr True \<Longrightarrow> fs (snd (download_with_retry e u ?df 3 s)) ?df = Some (File c0)"
    unfolding download_with_retry_def using retry_loop_result[of e u ?df 3 "[0..<nat 3]"] by blast
  obtain rx where rx: "\<And>s. fs s ?df = Some (File c0) \<Longrightarrow> fst (extract_archive n u ?df ?pd s) = rx"
    using extract_archive_result by blast
  have "fst (download_archive e cd n u s) = (case r0 of Inl err \<Rightarrow> Inl err | Inr b \<Rightarrow> rx)" for s
  proof -
    let ?s2 = "logger_info (''Starting archive download for package: '' @ n)
      (s\<lparr>fs := mkdir_parents (parent ?pd) (fs s)\<rparr>)"
    obtain r s3 where d: "download_with_retry e u ?df 3 ?s2 = (r, s3)" by fastforce
    have r: "r = r0" using rl(1)[of ?s2] d by simp
    show ?thesis
    proof (cases r)
      case (Inl x)
      then show ?thesis unfolding download_archive_def Let_def d using r by simp
    next
      case (Inr b)
      then have "fst (download_with_retry e u ?df 3 ?s2) = Inr b" using d by simp
      from download_with_retry_answer[OF this] have b: "b" .
      have "fs s3 ?df = Some (File c0)" using rl(2)[of ?s2] d r Inr b by simp
      from rx[OF this]
      show ?thesis unfolding download_archive_def Let_def d using Inr r
        by (simp add: split_beta)
    qed
  qed
  then show ?thesis by blast
qed

lemma fetch_package_result:
  "fst (fetch_package e cd a s) = fst (fetch_package e cd a s')"
proof -
  consider (git) "truthy (github_repository a) \<or> truthy (git_repository a)"
    | (url) "\<not> truthy (github_repository a)" "\<not> truthy (git_repository a)" "truthy (url a)"
    | (none) "\<not> truthy (github_repository a)" "\<not> truthy (git_repository a)" "\<not> truthy (url a)"
    by blast
  then show ?thesis
  proof cases
    case git
    show ?thesis
      unfolding fetch_package_git[OF git]
      by (simp add: split_beta clone_repo_result split: sum.splits)
  next
    case url
    obtain r where r: "\<And>s. fst (download_archive e cd (name a) (the (url a)) s) = r"
      using download_archive_result by blast
    show ?thesis
      unfolding fetch_package_url[OF url]
      using r
      by (simp add: split_beta split: sum.splits)
  next
    case none
    show ?thesis
      unfolding fetch_package_no_source[OF none] by simp
  qed
qed



section \<open>The serialisation of the identity is injective\<close>

lemma hex_value_hex_digit: "k < 16 \<Longrightarrow> hex_value (hex_digit k) = k"
proof -
  assume "k < 16"
  then have "k \<in> {0,1,2,3,4,5,6,7,8,9,10,11,12,13,14,15}"
    by (simp del: One_nat_def) arith
  then show ?thesis
    by (auto simp add: hex_value_def hex_digit_def)
qed

lemma of_char_less_256: "of_char (c::char) < (256::nat)"
  by (cases c) simp

lemma unescape_escape: "unescape_head (escape_char c @ x) = Some (c, x)"
proof -
  let ?n = "of_char c :: nat"
  have d: "?n div 16 < 16" "?n mod 16 < 16" using of_char_less_256[of c] by arith+
  have "char_of (16 * (?n div 16) + ?n mod 16) = c" by simp
  then show ?thesis
    by (simp add: escape_char_def hex_value_hex_digit[OF d(1)] hex_value_hex_digit[OF d(2)]
        backslash_def dquote_def)
qed

lemma escape_char_prefix_free:
  "escape_char c @ x = escape_char d @ y \<Longrightarrow> c = d \<and> x = y"
  by (metis unescape_escape option.inject prod.inject)

lemma escape_char_head: "\<exists>h t. escape_char c = h # t \<and> h \<noteq> dquote"
  by (simp add: escape_char_def backslash_def dquote_def)

lemma escaped_body_inj:
  "concat (map escape_char s) @ dquote # x = concat (map escape_char t) @ dquote # y
     \<Longrightarrow> s = t \<and> x = y"
proof (induction s arbitrary: t)
  case Nil
  show ?case
  proof (cases t)
    case Nil
    with Nil.prems show ?thesis by simp
  next
    case (Cons d t')
    obtain h r where "escape_char d = h # r" "h \<noteq> dquote" using escape_char_head by blast
    with Nil.prems Cons show ?thesis by simp
  qed
next
  case (Cons c s)
  show ?case
  proof (cases t)
    case Nil
    obtain h r where "escape_char c = h # r" "h \<noteq> dquote" using escape_char_head by blast
    with Cons.prems Nil show ?thesis by simp
  next
    case (Cons d t')
    from Cons.prems Cons
    have "escape_char c @ (concat (map escape_char s) @ dquote # x)
        = escape_char d @ (concat (map escape_char t') @ dquote # y)"
      by simp
    from escape_char_prefix_free[OF this]
    have "c = d" "concat (map escape_char s) @ dquote # x = concat (map escape_char t') @ dquote # y"
      by simp_all
    with Cons.IH[of t'] Cons show ?thesis by simp
  qed
qed

lemma sorted_new_info:
  "sort_key fst (new_info a) =
     [(''git_repository'', or_empty (git_repository a)),
      (''git_tag'', or_empty (git_tag a)),
      (''github_repository'', or_empty (github_repository a)),
      (''url'', or_empty (url a)),
      (''version'', or_empty (version a))]"
  by (simp add: new_info_def)

lemma escaped_key_chars:
  "escape_char CHR ''g'' = ''g''"
  "escape_char CHR ''i'' = ''i''"
  "escape_char CHR ''t'' = ''t''"
  "escape_char CHR ''r'' = ''r''"
  "escape_char CHR ''e'' = ''e''"
  "escape_char CHR ''p'' = ''p''"
  "escape_char CHR ''s'' = ''s''"
  "escape_char CHR ''o'' = ''o''"
  "escape_char CHR ''y'' = ''y''"
  "escape_char CHR ''a'' = ''a''"
  "escape_char CHR ''h'' = ''h''"
  "escape_char CHR ''u'' = ''u''"
  "escape_char CHR ''b'' = ''b''"
  "escape_char CHR ''l'' = ''l''"
  "escape_char CHR ''v'' = ''v''"
  "escape_char CHR ''n'' = ''n''"
  "escape_char CHR ''_'' = ''_''"
  by (simp_all add: escape_char_def backslash_def dquote_def)

lemma json_dumps_new_info:
  "json_dumps_sorted (new_info a) =
     ''{'' @ [dquote] @ ''git_repository'' @ [dquote] @ '': '' @ [dquote]
       @ concat (map escape_char (or_empty (git_repository a))) @ [dquote]
       @ '', '' @ [dquote] @ ''git_tag'' @ [dquote] @ '': '' @ [dquote]
       @ concat (map escape_char (or_empty (git_tag a))) @ [dquote]
       @ '', '' @ [dquote] @ ''github_repository'' @ [dquote] @ '': '' @ [dquote]
       @ concat (map escape_char (or_empty (github_repository a))) @ [dquote]
       @ '', '' @ [dquote] @ ''url'' @ [dquote] @ '': '' @ [dquote]
       @ concat (map escape_char (or_empty (url a))) @ [dquote]
       @ '', '' @ [dquote] @ ''version'' @ [dquote] @ '': '' @ [dquote]
       @ concat (map escape_char (or_empty (version a))) @ [dquote]
       @ ''}''"
  unfolding json_dumps_sorted_def sorted_new_info
  by (simp add: encode_basestring_ascii_def escaped_key_chars)

lemma json_dumps_new_info_inj:
  assumes "json_dumps_sorted (new_info a1) = json_dumps_sorted (new_info a2)"
  shows "new_info a1 = new_info a2"
proof -
  from assms have 1:
    "concat (map escape_char (or_empty (git_repository a1))) @ dquote #
       ('', '' @ [dquote] @ ''git_tag'' @ [dquote] @ '': '' @ [dquote]
       @ concat (map escape_char (or_empty (git_tag a1))) @ [dquote]
       @ '', '' @ [dquote] @ ''github_repository'' @ [dquote] @ '': '' @ [dquote]
       @ concat (map escape_char (or_empty (github_repository a1))) @ [dquote]
       @ '', '' @ [dquote] @ ''url'' @ [dquote] @ '': '' @ [dquote]
       @ concat (map escape_char (or_empty (url a1))) @ [dquote]
       @ '', '' @ [dquote] @ ''version'' @ [dquote] @ '': '' @ [dquote]
       @ concat (map escape_char (or_empty (version a1))) @ [dquote]
       @ ''}'')
     = concat (map escape_char (or_empty (git_repository a2))) @ dquote #
       ('', '' @ [dquote] @ ''git_tag'' @ [dquote] @ '': '' @ [dquote]
       @ concat (map escape_char (or_empty (git_tag a2))) @ [dquote]
       @ '', '' @ [dquote] @ ''github_repository'' @ [dquote] @ '': '' @ [dquote]
       @ concat (map escape_char (or_empty (github_repository a2))) @ [dquote]
       @ '', '' @ [dquote] @ ''url'' @ [dquote] @ '': '' @ [dquote]
       @ concat (map escape_char (or_empty (url a2))) @ [dquote]
       @ '', '' @ [dquote] @ ''version'' @ [dquote] @ '': '' @ [dquote]
       @ concat (map escape_char (or_empty (version a2))) @ [dquote]
       @ ''}'')"
    unfolding json_dumps_new_info by simp
  note r = escaped_body_inj[OF 1]
  from r have 2:
    "concat (map escape_char (or_empty (git_tag a1))) @ dquote #
       ('', '' @ [dquote] @ ''github_repository'' @ [dquote] @ '': '' @ [dquote]
       @ concat (map escape_char (or_empty (github_repository a1))) @ [dquote]
       @ '', '' @ [dquote] @ ''url'' @ [dquote] @ '': '' @ [dquote]
       @ concat (map escape_char (or_empty (url a1))) @ [dquote]
       @ '', '' @ [dquote] @ ''version'' @ [dquote] @ '': '' @ [dquote]
       @ concat (map escape_char (or_empty (version a1))) @ [dquote]
       @ ''}'')
     = concat (map escape_char (or_empty (git_tag a2))) @ dquote #
       ('', '' @ [dquote] @ ''github_repository'' @ [dquote] @ '': '' @ [dquote]
       @ concat (map escape_char (or_empty (github_repository a2))) @ [dquote]
       @ '', '' @ [dquote] @ ''url'' @ [dquote] @ '': '' @ [dquote]
       @ concat (map escape_char (or_empty (url a2))) @ [dquote]
       @ '', '' @ [dquote] @ ''version'' @ [dquote] @ '': '' @ [dquote]
       @ concat (map escape_char (or_empty (version a2))) @ [dquote]
       @ ''}'')"
    by simp
  note t = escaped_body_inj[OF 2]
  from t have 3:
    "concat (map escape_char (or_empty (github_repository a1))) @ dquote #
       ('', '' @ [dquote] @ ''url'' @ [dquote] @ '': '' @ [dquote]
       @ concat (map escape_char (or_empty (url a1))) @ [dquote]
       @ '', '' @ [dquote] @ ''version'' @ [dquote] @ '': '' @ [dquote]
       @ concat (map escape_char (or_empty (version a1))) @ [dquote]
       @ ''}'')
     = concat (map escape_char (or_empty (github_repository a2))) @ dquote #
       ('', '' @ [dquote] @ ''url'' @ [dquote] @ '': '' @ [dquote]
       @ concat (map escape_char (or_empty (url a2))) @ [dquote]
       @ '', '' @ [dquote] @ ''version'' @ [dquote] @ '': '' @ [dquote]
       @ concat (map escape_char (or_empty (version a2))) @ [dquote]
       @ ''}'')"
    by simp
  note g = escaped_body_inj[OF 3]
  from g have 4:
    "concat (map escape_char (or_empty (url a1))) @ dquote #
       ('', '' @ [dquote] @ ''version'' @ [dquote] @ '': '' @ [dquote]
       @ concat (map escape_char (or_empty (version a1))) @ [dquote]
       @ ''}'')
     = concat (map escape_char (or_empty (url a2))) @ dquote #
       ('', '' @ [dquote] @ ''version'' @ [dquote] @ '': '' @ [dquote]
       @ concat (map escape_char (or_empty (version a2))) @ [dquote]
       @ ''}'')"
    by simp
  note u = escaped_body_inj[OF 4]
  from u have 5:
    "concat (map escape_char (or_empty (version a1))) @ dquote # ''}''
     = concat (map escape_char (or_empty (version a2))) @ dquote # ''}''"
    by simp
  note v = escaped_body_inj[OF 5]
  show ?thesis
    using r t g u v by (simp add: new_info_def)
qed

section \<open>The output only grows\<close>

lemma logger_out [simp]:
  "x \<in> set (out s) \<Longrightarrow> x \<in> set (out (logger_info m s))"
  "x \<in> set (out s) \<Longrightarrow> x \<in> set (out (logger_error m s))"
  "x \<in> set (out s) \<Longrightarrow> x \<in> set (out (logger_success m s))"
  "x \<in> set (out s) \<Longrightarrow> x \<in> set (out (logger_status st n s))"
  by (simp_all add: logger_info_def logger_error_def logger_success_def logger_status_def)

lemma retry_loop_out:
  "x \<in> set (out s) \<Longrightarrow> x \<in> set (out (snd (retry_loop e u d n l s)))"
proof (induction l arbitrary: s)
  case Nil
  then show ?case by simp
next
  case (Cons a l)
  show ?case
    unfolding retry_loop.simps Let_def
    using Cons.prems by (auto split: option.splits intro!: Cons.IH)
qed

lemma full_clone_out:
  "x \<in> set (out s) \<Longrightarrow> x \<in> set (out (snd (full_clone e r d t s)))"
  by (simp add: full_clone_def run_command_def Let_def)

lemma clone_repo_out:
  "x \<in> set (out s) \<Longrightarrow> x \<in> set (out (snd (clone_repo e cd n r t s)))"
  using full_clone_out[of x _ e r "get_package_dir cd n" t]
  by (simp add: clone_repo_def Let_def split_beta split: sum.splits)

lemma update_full_out:
  "x \<in> set (out s) \<Longrightarrow> x \<in> set (out (snd (update_full e d s)))"
  by (simp add: update_full_def update_steps_def run_command_def Let_def)

lemma update_repo_out:
  "x \<in> set (out s) \<Longrightarrow> x \<in> set (out (snd (update_repo e cd n s)))"
  by (simp add: update_repo_def Let_def update_full_out)

lemma zip_strip_loop_out:
  "x \<in> set (out s) \<Longrightarrow> x \<in> set (out (snd (zip_strip_loop ms cp pd idx names s)))"
proof (induction names arbitrary: idx s)
  case Nil
  then show ?case by simp
next
  case (Cons member rest)
  show ?case
    unfolding zip_strip_loop.simps Let_def
    using Cons.prems by (auto split: prod.splits sum.splits intro!: Cons.IH)
qed

lemma tar_strip_loop_out:
  "x \<in> set (out s) \<Longrightarrow> x \<in> set (out (tar_strip_loop n cp pd idx ms s))"
proof (induction ms arbitrary: idx s)
  case Nil
  then show ?case by simp
next
  case (Cons member rest)
  show ?case
    unfolding tar_strip_loop.simps Let_def
    using Cons.prems by (auto intro!: Cons.IH)
qed

lemma extract_zip_out:
  "x \<in> set (out s) \<Longrightarrow> x \<in> set (out (snd (extract_zip df pd s)))"
  by (simp add: extract_zip_def Let_def split_beta zip_strip_loop_out
      split: option.splits node.splits content.splits sum.splits)

lemma extract_tar_out:
  "x \<in> set (out s) \<Longrightarrow> x \<in> set (out (snd (extract_tar df pd s)))"
  by (simp add: extract_tar_def Let_def tar_strip_loop_out
      split: option.splits node.splits content.splits sum.splits)

lemma extract_archive_out:
  "x \<in> set (out s) \<Longrightarrow> x \<in> set (out (snd (extract_archive n u df pd s)))"
  by (simp add: extract_archive_def Let_def split_beta extract_zip_out extract_tar_out
      split: sum.splits)

lemma download_archive_out:
  "x \<in> set (out s) \<Longrightarrow> x \<in> set (out (snd (download_archive e cd n u s)))"
  by (simp add: download_archive_def download_with_retry_def Let_def split_beta
      retry_loop_out extract_archive_out split: sum.splits)

lemma save_cached_info_out [simp]: "out (save_cached_info cd n i s) = out s"
  by (simp add: save_cached_info_def get_cache_file_def Let_def)

lemma clear_package_out:
  "x \<in> set (out s) \<Longrightarrow> x \<in> set (out (clear_package cd n s))"
  by (simp add: clear_package_def Let_def)

lemma fetch_package_out:
  "x \<in> set (out s) \<Longrightarrow> x \<in> set (out (snd (fetch_package e cd a s)))"
  by (simp add: fetch_package_def Let_def split_beta clone_repo_out download_archive_out
      split: sum.splits)

lemma reuse_or_fetch_out:
  "x \<in> set (out s) \<Longrightarrow> x \<in> set (out (snd (reuse_or_fetch e cd a s)))"
  by (simp add: reuse_or_fetch_def Let_def split_beta update_repo_out fetch_package_out
      clear_package_out split: sum.splits)

lemma status_emitted: "emitted st n (logger_status st n s)"
  by (simp add: emitted_def status_line_def logger_status_def)

section \<open>Build options and the cache decision\<close>

text \<open>
  Claim C3. Two invocations that differ only in the build options are \<open>a\<close> and
  \<open>a\<lparr>options := opts\<rparr>\<close>. On every state of the world they run identically: the same result,
  the same final state and output (so \<open>REFETCH\<close> is written by one exactly when it is
  written by the other), the same identity dictionary and the same answer of
  \<open>needs_refetch\<close>.
\<close>

theorem options_noninterference:
  "process_package e cd (a\<lparr>options := opts\<rparr>) s = process_package e cd a s
   \<and> main e (a\<lparr>options := opts\<rparr>) s = main e a s
   \<and> new_info (a\<lparr>options := opts\<rparr>) = new_info a
   \<and> needs_refetch e cd (name (a\<lparr>options := opts\<rparr>)) (new_info (a\<lparr>options := opts\<rparr>)) s
       = needs_refetch e cd (name a) (new_info a) s
   \<and> (emitted ''REFETCH'' (name a) (snd (process_package e cd (a\<lparr>options := opts\<rparr>) s))
        \<longleftrightarrow> emitted ''REFETCH'' (name a) (snd (process_package e cd a s)))"
proof -
  have f: "fetch_package e cd (a\<lparr>options := opts\<rparr>) = fetch_package e cd a" for cd
    by (rule ext)
      (simp add: fetch_package_def new_info_def Let_def
        cong: if_cong sum.case_cong prod.case_cong split del: if_split)
  have p: "process_package e cd (a\<lparr>options := opts\<rparr>) s = process_package e cd a s" for cd s
    by (simp add: process_package_def f new_info_def Let_def
        cong: if_cong sum.case_cong prod.case_cong split del: if_split)
  show ?thesis
    by (simp add: p main_def new_info_def Let_def cong: if_cong split del: if_split)
qed

section \<open>Updating a git package\<close>

text \<open>
  Claim C8. \<open>update_full\<close> never raises: its result is always a boolean. The boolean is
  false whenever the fetch or the hard reset times out or exits with a nonzero status, and
  the exit status of the submodule update does not enter it: with a fetch and a reset that
  succeed, the update returns true whatever that status is (only a timeout of the
  submodule step, which the same \<open>except\<close> clause catches, makes it false).
\<close>

theorem update_full_result:
  "fst (update_full e d s) =
     Inr (\<not> timed_out (subprocess_run e fetch_command)
          \<and> returncode (subprocess_run e fetch_command) = 0
          \<and> \<not> timed_out (subprocess_run e reset_command)
          \<and> returncode (subprocess_run e reset_command) = 0
          \<and> \<not> timed_out (subprocess_run e submodule_command))"
  by (simp add: update_full_def update_steps_def run_command_def Let_def)

section \<open>The tag of a fresh clone\<close>

text \<open>
  Claim C10. Every fresh fetch goes through the last part of \<open>process_package\<close>
  (\<open>fetch_package\<close>). When a git source is given and \<open>git_tag\<close> is unset or empty, the one
  command it runs is \<open>git clone\<close> with \<open>--branch v<version>\<close> if a version is given, and
  without \<open>--branch\<close> if none is; with no package directory on disk, \<open>process_package\<close>
  runs exactly that command.
\<close>

theorem clone_tag_defaulting:
  assumes "truthy (github_repository a) \<or> truthy (git_repository a)"
    and "\<not> truthy (git_tag a)"
  shows "procs (snd (fetch_package e cd a s)) =
      procs s @
      [[''git'', ''clone'']
       @ (if truthy (version a) then [''--branch'', ''v'' @ the (version a)] else [])
       @ [''--recurse-submodules'', ''--quiet'', ''--shallow-submodules'', ''--single-branch'',
          ''--depth'', ''1'',
          (if truthy (github_repository a)
           then ''https://github.com/'' @ the (github_repository a) @ ''.git''
           else the (git_repository a)),
          str_path (get_package_dir cd (name a))]]
    \<and> (\<not> path_exists (fs s) (get_package_dir cd (name a)) \<longrightarrow>
         procs (snd (process_package e cd a s)) = procs (snd (fetch_package e cd a s)))"
proof -
  have "procs (snd (fetch_package e cd a s')) =
      procs s' @ [clone_command (git_source a) (get_package_dir cd (name a)) (clone_tag a)]" for s'
    by (rule fetch_package_procs_git[OF assms(1)])
  note f = this
  have c: "clone_command (git_source a) (get_package_dir cd (name a)) (clone_tag a) =
      [''git'', ''clone'']
       @ (if truthy (version a) then [''--branch'', ''v'' @ the (version a)] else [])
       @ [''--recurse-submodules'', ''--quiet'', ''--shallow-submodules'', ''--single-branch'',
          ''--depth'', ''1'',
          (if truthy (github_repository a)
           then ''https://github.com/'' @ the (github_repository a) @ ''.git''
           else the (git_repository a)),
          str_path (get_package_dir cd (name a))]"
    using assms(2) by (simp add: clone_command_def clone_tag_def git_source_def)
  show ?thesis
    using f[of s] f[of "announce a s"] c by (simp add: process_package_absent)
qed

text \<open>Version \<open>2.0\<close> clones the tag \<open>v2.0\<close>; no version and no tag clone without a tag.\<close>

theorem clone_tag_defaulting_witness:
  "procs (snd (process_package offline_env [''cache'']
       (lib_args\<lparr>git_repository := Some ''https://example/lib.git'', version := Some ''2.0''\<rparr>)
       empty_world)) =
     [[''git'', ''clone'', ''--branch'', ''v2.0'', ''--recurse-submodules'', ''--quiet'',
       ''--shallow-submodules'', ''--single-branch'', ''--depth'', ''1'',
       ''https://example/lib.git'', ''cache/lib/lib'']]
   \<and> procs (snd (process_package offline_env [''cache'']
       (lib_args\<lparr>github_repository := Some ''acme/lib''\<rparr>) empty_world)) =
     [[''git'', ''clone'', ''--recurse-submodules'', ''--quiet'',
       ''--shallow-submodules'', ''--single-branch'', ''--depth'', ''1'',
       ''https://github.com/acme/lib.git'', ''cache/lib/lib'']]"
proof -
  have absent: "\<not> path_exists (fs empty_world) (get_package_dir [''cache''] ''lib'')"
    by (simp add: path_exists_def empty_world_def)
  have p: "str_path (get_package_dir [''cache''] ''lib'') = ''cache/lib/lib''"
    by (simp add: str_path_def get_package_dir_def pjoin_def parts_def)
  show ?thesis
    using clone_tag_defaulting[of "lib_args\<lparr>git_repository := Some ''https://example/lib.git'', version := Some ''2.0''\<rparr>"
        offline_env "[''cache'']" empty_world]
      clone_tag_defaulting[of "lib_args\<lparr>github_repository := Some ''acme/lib''\<rparr>"
        offline_env "[''cache'']" empty_world] absent p
    by (simp add: lib_args_def empty_world_def)
qed

section \<open>No source given\<close>

text \<open>
  Claim C9, as the code has it. With no source given and a cache that is not valid,
  \<open>process_package\<close> raises \<open>No source specified for <name>\<close>. It leaves the file system
  as it found it only when the package directory does not exist; when the directory exists,
  the package's whole subtree under the cache directory is removed before the error is
  raised. (The last hypothesis holds in every real file system: an existing directory has
  an existing parent.)
\<close>

theorem no_source_error:
  assumes "\<not> truthy (github_repository a)" and "\<not> truthy (git_repository a)"
    and "\<not> truthy (url a)"
    and "fst (is_cache_valid e cd (name a) (new_info a) (get_package_dir cd (name a)) s) = Inr False"
    and "path_exists (fs s) (get_package_dir cd (name a)) \<longrightarrow> path_exists (fs s) (pjoin cd (name a))"
  shows "fst (process_package e cd a s) = Inl (Exception (''No source specified for '' @ name a))
    \<and> fs (snd (process_package e cd a s)) =
        (if path_exists (fs s) (get_package_dir cd (name a))
         then rmtree (pjoin cd (name a)) (fs s) else fs s)"
proof (cases "path_exists (fs s) (get_package_dir cd (name a))")
  case False
  then show ?thesis
    by (simp add: process_package_absent fetch_package_no_source[OF assms(1-3)])
next
  case True
  let ?v = "is_cache_valid e cd (name a) (new_info a) (get_package_dir cd (name a))"
  have v: "?v (announce a s) = (Inr False, (snd (?v s))\<lparr>out := out (announce a s)\<rparr>)"
    using is_cache_valid_out[where s = s and x = "out (announce a s)"] assms(4)
      announce_out[of a s] by simp
  have par: "path_exists (fs s) (pjoin cd (name a))"
    using True assms(5) by simp
  have gone: "\<not> path_exists (rmtree (pjoin cd (name a)) (fs s)) (get_package_dir cd (name a))"
    by (simp add: path_exists_def rmtree_below)
  have "process_package e cd a s =
      fetch_package e cd a (clear_package cd (name a)
        (logger_status ''REFETCH'' (name a) ((snd (?v s))\<lparr>out := out (announce a s)\<rparr>)))"
    using True v par gone
    by (simp add: process_package_stages needs_refetch_def reuse_or_fetch_def Let_def
        clear_package_fs is_cache_valid_fs)
  then show ?thesis
    using True par
    by (simp add: fetch_package_no_source[OF assms(1-3)] clear_package_fs is_cache_valid_fs)
qed

text \<open>The theorem at a package directory without a record, and at an empty cache.\<close>

theorem no_source_error_witness:
  "fst (process_package offline_env [''cache''] lib_args stale_world)
     = Inl (Exception ''No source specified for lib'')
   \<and> fs (snd (process_package offline_env [''cache''] lib_args stale_world))
     = rmtree [''cache'', ''lib''] (fs stale_world)
   \<and> fst (process_package offline_env [''cache''] lib_args empty_world)
     = Inl (Exception ''No source specified for lib'')
   \<and> fs (snd (process_package offline_env [''cache''] lib_args empty_world)) = fs empty_world"
proof -
  have h: "\<not> truthy (github_repository lib_args)" "\<not> truthy (git_repository lib_args)"
      "\<not> truthy (url lib_args)" "name lib_args = ''lib''"
    by (simp_all add: lib_args_def)
  have d: "get_package_dir [''cache''] ''lib'' = [''cache'', ''lib'', ''lib'']"
      "pjoin [''cache''] ''lib'' = [''cache'', ''lib'']"
    by (simp_all add: get_package_dir_def pjoin_def parts_def)
  have v1: "fst (is_cache_valid offline_env [''cache''] (name lib_args) (new_info lib_args)
      (get_package_dir [''cache''] (name lib_args)) stale_world) = Inr False"
    by (simp add: h d is_cache_valid_def stale_world_def empty_world_def path_exists_def
        pjoin_def parts_def)
  have v2: "fst (is_cache_valid offline_env [''cache''] (name lib_args) (new_info lib_args)
      (get_package_dir [''cache''] (name lib_args)) empty_world) = Inr False"
    by (simp add: h d is_cache_valid_def stale_world_def empty_world_def path_exists_def)
  have p1: "path_exists (fs stale_world) (get_package_dir [''cache''] (name lib_args))"
      "path_exists (fs stale_world) (pjoin [''cache''] (name lib_args))"
    by (simp_all add: h d stale_world_def path_exists_def)
  have p2: "\<not> path_exists (fs empty_world) (get_package_dir [''cache''] (name lib_args))"
    by (simp add: h d empty_world_def path_exists_def)
  show ?thesis
    using no_source_error[OF h(1-3) v1] no_source_error[OF h(1-3) v2] p1 p2
    by (simp add: h d)
qed

text \<open>
  Claim C9 as stated fails: with no source given and a package directory that has no cache
  record, the error is raised after the package directory was deleted; and \<open>main\<close> has
  made the cache directory before \<open>process_package\<close> raises.
\<close>

theorem no_source_touches_filesystem:
  "fst (process_package offline_env [''cache''] lib_args stale_world)
     = Inl (Exception ''No source specified for lib'')
   \<and> fs stale_world [''cache'', ''lib'', ''lib''] = Some Dir
   \<and> fs (snd (process_package offline_env [''cache''] lib_args stale_world))
        [''cache'', ''lib'', ''lib''] = None
   \<and> fst (main offline_env lib_args empty_world)
     = Inl (Exception ''No source specified for lib'')
   \<and> fs empty_world [''cache''] = None
   \<and> fs (snd (main offline_env lib_args empty_world)) [''cache''] = Some Dir"
  by code_simp

section \<open>A cache record that does not parse\<close>

text \<open>
  Claim C4, as the code has it. When the package directory exists, the record file exists
  and is not a JSON document, and the record is not in the metadata cache of the process,
  \<open>is_cache_valid\<close> gives no answer: \<open>json.load\<close> raises, nothing catches the exception,
  and \<open>process_package\<close> ends with it. \<open>REFETCH\<close> is not written and the file system is
  left as it was: there is no refetch.
\<close>

theorem corrupt_record_raises:
  assumes "path_exists (fs s) (get_package_dir cd (name a))"
    and "fs s (pjoin (pjoin (pjoin cd (name a)) ''CACHE'') ''.cache'') = Some (File c)"
    and "\<forall>d. c \<noteq> Json d"
    and "metadata_cache s (name a) = None"
  shows "is_cache_valid e cd (name a) (new_info a) (get_package_dir cd (name a)) s
           = (Inl JSONDecodeError, s)
    \<and> fst (process_package e cd a s) = Inl JSONDecodeError
    \<and> fs (snd (process_package e cd a s)) = fs s
    \<and> (emitted ''REFETCH'' (name a) (snd (process_package e cd a s))
         \<longleftrightarrow> emitted ''REFETCH'' (name a) s)"
proof -
  have l: "json_load (fs s) (pjoin (pjoin (pjoin cd (name a)) ''CACHE'') ''.cache'') = Inl JSONDecodeError"
    using assms(2,3) by (cases c) (simp_all add: json_load_def)
  have v: "is_cache_valid e cd (name a) (new_info a) (get_package_dir cd (name a)) s'
           = (Inl JSONDecodeError, s')" if "fs s' = fs s" "metadata_cache s' = metadata_cache s" for s'
    using assms(1,2,4) l that by (simp add: is_cache_valid_def path_exists_def)
  have "process_package e cd a s = (Inl JSONDecodeError, announce a s)"
    using assms(1) v[of "announce a s"]
    by (simp add: process_package_stages needs_refetch_def)
  then show ?thesis
    using v[of s] by simp
qed

text \<open>The theorem at a record file that holds the start of a document only.\<close>

theorem corrupt_record_raises_witness:
  "fst (process_package offline_env [''cache'']
      (lib_args\<lparr>git_repository := Some ''https://example/lib.git''\<rparr>) corrupt_world) = Inl JSONDecodeError
   \<and> fs (snd (process_package offline_env [''cache'']
      (lib_args\<lparr>git_repository := Some ''https://example/lib.git''\<rparr>) corrupt_world)) = fs corrupt_world"
proof -
  let ?a = "lib_args\<lparr>git_repository := Some ''https://example/lib.git''\<rparr>"
  have n: "name ?a = ''lib''" by (simp add: lib_args_def)
  have d: "get_package_dir [''cache''] ''lib'' = [''cache'', ''lib'', ''lib'']"
      "pjoin (pjoin (pjoin [''cache''] ''lib'') ''CACHE'') ''.cache'' = [''cache'', ''lib'', ''CACHE'', ''.cache'']"
    by (simp_all add: get_package_dir_def pjoin_def parts_def)
  have h1: "path_exists (fs corrupt_world) (get_package_dir [''cache''] (name ?a))"
    by (simp add: n d corrupt_world_def path_exists_def)
  have h2: "fs corrupt_world (pjoin (pjoin (pjoin [''cache''] (name ?a)) ''CACHE'') ''.cache'')
      = Some (File (Bytes ''{version''))"
    by (simp add: n d corrupt_world_def)
  have h3: "\<forall>d. Bytes ''{version'' \<noteq> Json d" by simp
  have h4: "metadata_cache corrupt_world (name ?a) = None"
    by (simp add: corrupt_world_def empty_world_def)
  show ?thesis
    using corrupt_record_raises[OF h1 h2 h3 h4, of offline_env] by simp
qed

text \<open>
  Claim C4 as stated fails: on that record the validity check raises instead of answering
  that the cache is invalid, \<open>process_package\<close> ends with the decoder's error although a
  git source is given, \<open>REFETCH\<close> is not written and no command is run.
\<close>

theorem corrupt_record_is_fatal:
  "fst (is_cache_valid offline_env [''cache''] ''lib''
         (new_info (lib_args\<lparr>git_repository := Some ''https://example/lib.git''\<rparr>))
         [''cache'', ''lib'', ''lib''] corrupt_world) = Inl JSONDecodeError
   \<and> fst (process_package offline_env [''cache'']
         (lib_args\<lparr>git_repository := Some ''https://example/lib.git''\<rparr>) corrupt_world)
       = Inl JSONDecodeError
   \<and> \<not> emitted ''REFETCH'' ''lib'' (snd (process_package offline_env [''cache'']
         (lib_args\<lparr>git_repository := Some ''https://example/lib.git''\<rparr>) corrupt_world))
   \<and> procs (snd (process_package offline_env [''cache'']
         (lib_args\<lparr>git_repository := Some ''https://example/lib.git''\<rparr>) corrupt_world)) = []"
  by code_simp

section \<open>Downloads\<close>

text \<open>
  Claim C7, as the code has it. \<open>download_with_retry\<close> with \<open>p_retries = n\<close> (3 where
  \<open>download_archive\<close> calls it) makes at most \<open>n\<close> attempts. When all \<open>n\<close> fail with an
  error of the caught classes, it has opened the URL \<open>n\<close> times, slept \<open>2 ^ i\<close> seconds
  after the failed attempt \<open>i\<close> for \<open>i < n - 1\<close>, and raises an exception whose message
  gives the number of attempts and the last cause; the URL is not part of the message.
  When attempt \<open>k\<close> is the first to succeed, the result is true, the sleeps are those of the
  \<open>k\<close> failures, and the destination holds exactly the body of attempt \<open>k\<close>, whatever the
  failed attempts had written to it.
\<close>

theorem download_retry_contract:
  "(0 < n \<and> (\<forall>i<n. attempt_error (urlopen e u i) \<noteq> None) \<longrightarrow>
      fst (download_with_retry e u d (int n) s) =
        Inl (Exception (''Failed to download after '' @ str_int (int n) @ '' attempts: ''
               @ the (attempt_error (urlopen e u (n - 1)))))
      \<and> requests (snd (download_with_retry e u d (int n) s)) = requests s @ replicate n u
      \<and> slept (snd (download_with_retry e u d (int n) s)) = slept s @ map (\<lambda>i. 2 ^ i) [0..<n - 1])
   \<and> (k < n \<and> (\<forall>i<k. attempt_error (urlopen e u i) \<noteq> None) \<and> urlopen e u k = Body c \<longrightarrow>
      fst (download_with_retry e u d (int n) s) = Inr True
      \<and> fs (snd (download_with_retry e u d (int n) s)) = write_file d c (fs s)
      \<and> requests (snd (download_with_retry e u d (int n) s)) = requests s @ replicate (Suc k) u
      \<and> slept (snd (download_with_retry e u d (int n) s)) = slept s @ map (\<lambda>i. 2 ^ i) [0..<k])"
proof (intro conjI impI)
  assume h: "0 < n \<and> (\<forall>i<n. attempt_error (urlopen e u i) \<noteq> None)"
  then have a: "0 < n" "\<forall>i. 0 \<le> i \<and> i < n \<longrightarrow> attempt_error (urlopen e u i) \<noteq> None"
    by simp_all
  from retry_loop_all_fail[OF a, of d s]
  show "fst (download_with_retry e u d (int n) s) =
        Inl (Exception (''Failed to download after '' @ str_int (int n) @ '' attempts: ''
               @ the (attempt_error (urlopen e u (n - 1)))))"
    and "requests (snd (download_with_retry e u d (int n) s)) = requests s @ replicate n u"
    and "slept (snd (download_with_retry e u d (int n) s)) = slept s @ map (\<lambda>i. 2 ^ i) [0..<n - 1]"
    by (simp_all add: download_with_retry_def failure_message_def)
next
  assume h: "k < n \<and> (\<forall>i<k. attempt_error (urlopen e u i) \<noteq> None) \<and> urlopen e u k = Body c"
  then have a: "0 \<le> k" "k < n" "\<forall>i. 0 \<le> i \<and> i < k \<longrightarrow> attempt_error (urlopen e u i) \<noteq> None"
    "urlopen e u k = Body c"
    by simp_all
  from retry_loop_success[OF a, of d s]
  show "fst (download_with_retry e u d (int n) s) = Inr True"
    and "fs (snd (download_with_retry e u d (int n) s)) = write_file d c (fs s)"
    and "requests (snd (download_with_retry e u d (int n) s)) = requests s @ replicate (Suc k) u"
    and "slept (snd (download_with_retry e u d (int n) s)) = slept s @ map (\<lambda>i. 2 ^ i) [0..<k]"
    by (simp_all add: download_with_retry_def)
qed

text \<open>Three failures in a row, and a failure in the middle of a read followed by a success.\<close>

theorem download_retry_contract_witness:
  "fst (download_with_retry offline_env ''https://example.org/lib.zip'' [''cache'', ''lib_download''] 3 empty_world)
     = Inl (Exception ''Failed to download after 3 attempts: <urlopen error timed out>'')
   \<and> requests (snd (download_with_retry offline_env ''https://example.org/lib.zip'' [''cache'', ''lib_download''] 3 empty_world))
     = [''https://example.org/lib.zip'', ''https://example.org/lib.zip'', ''https://example.org/lib.zip'']
   \<and> slept (snd (download_with_retry offline_env ''https://example.org/lib.zip'' [''cache'', ''lib_download''] 3 empty_world))
     = [1, 2]
   \<and> fst (download_with_retry flaky_env ''https://example.org/lib.zip'' [''cache'', ''lib_download''] 3 empty_world)
     = Inr True
   \<and> fs (snd (download_with_retry flaky_env ''https://example.org/lib.zip'' [''cache'', ''lib_download''] 3 empty_world))
        [''cache'', ''lib_download'']
     = Some (File lib_zip)
   \<and> slept (snd (download_with_retry flaky_env ''https://example.org/lib.zip'' [''cache'', ''lib_download''] 3 empty_world))
     = [1]"
proof -
  have f: "\<forall>i<3. attempt_error (urlopen offline_env ''https://example.org/lib.zip'' i) \<noteq> None"
    by (simp add: offline_env_def attempt_error_def)
  have c: "the (attempt_error (urlopen offline_env ''https://example.org/lib.zip'' 2))
      = ''<urlopen error timed out>''"
    by (simp add: offline_env_def attempt_error_def)
  have g: "\<forall>i<1. attempt_error (urlopen flaky_env ''https://example.org/lib.zip'' i) \<noteq> None"
    "urlopen flaky_env ''https://example.org/lib.zip'' 1 = Body lib_zip"
    by (simp_all add: flaky_env_def attempt_error_def)
  have n: "str_int 3 = ''3''" by code_simp
  have m: "map ((^) 2) [0..<2] = [Suc 0, 2::nat]" "replicate 3 x = [x, x, x]" for x :: string
    by (simp_all add: numeral_3_eq_3 numeral_2_eq_2 upt_rec)
  show ?thesis
    using download_retry_contract[of 3 offline_env "''https://example.org/lib.zip''"
        "[''cache'', ''lib_download'']" empty_world]
      download_retry_contract[of 3 flaky_env "''https://example.org/lib.zip''"
        "[''cache'', ''lib_download'']" empty_world 1 lib_zip]
      f g
    by (simp add: c n m empty_world_def write_file_def)
qed

text \<open>
  Claim C7 as stated fails in one point: the message of the final exception does not name
  the URL.
\<close>

theorem download_error_omits_url:
  "fst (download_with_retry offline_env ''https://example.org/lib.zip'' [''cache'', ''lib_download''] 3 empty_world)
     = Inl (Exception ''Failed to download after 3 attempts: <urlopen error timed out>'')
   \<and> \<not> sublist ''https://example.org/lib.zip''
         ''Failed to download after 3 attempts: <urlopen error timed out>''"
  by code_simp

section \<open>Extracting an archive\<close>

text \<open>
  Claim C2 at the archive it names. The two entries lie under the single directory
  \<open>foo-1.0\<close>. \<open>os.path.commonpath\<close> gives \<open>foo-1.0\<close>, which holds no slash, so the test
  \<open>'/' in common_prefix\<close> fails and the archive is extracted as it is: the package
  directory holds \<open>foo-1.0/a.txt\<close> and no \<open>a.txt\<close>, for the zip archive and for the tar
  archive alike.
\<close>

theorem single_top_level_directory_kept:
  "fst (download_archive mirror_env [''cache''] ''lib'' ''https://example.org/lib.zip'' empty_world)
     = Inr ()
   \<and> fs (snd (download_archive mirror_env [''cache''] ''lib'' ''https://example.org/lib.zip''
         empty_world)) [''cache'', ''lib'', ''lib'', ''foo-1.0''] = Some Dir
   \<and> fs (snd (download_archive mirror_env [''cache''] ''lib'' ''https://example.org/lib.zip''
         empty_world)) [''cache'', ''lib'', ''lib'', ''foo-1.0'', ''a.txt''] = Some (File (Bytes ''hi''))
   \<and> fs (snd (download_archive mirror_env [''cache''] ''lib'' ''https://example.org/lib.zip''
         empty_world)) [''cache'', ''lib'', ''lib'', ''a.txt''] = None
   \<and> fst (download_archive mirror_env [''cache''] ''lib'' ''https://example.org/lib.tar.gz'' empty_world)
     = Inr ()
   \<and> fs (snd (download_archive mirror_env [''cache''] ''lib'' ''https://example.org/lib.tar.gz''
         empty_world)) [''cache'', ''lib'', ''lib'', ''foo-1.0''] = Some Dir
   \<and> fs (snd (download_archive mirror_env [''cache''] ''lib'' ''https://example.org/lib.tar.gz''
         empty_world)) [''cache'', ''lib'', ''lib'', ''foo-1.0'', ''a.txt''] = Some (File (Bytes ''hi''))
   \<and> fs (snd (download_archive mirror_env [''cache''] ''lib'' ''https://example.org/lib.tar.gz''
         empty_world)) [''cache'', ''lib'', ''lib'', ''a.txt''] = None"
  by code_simp

text \<open>
  The prefix is stripped only when the entries share at least two directory levels, for
  then the common path holds a slash.
\<close>

lemma two_level_prefix_stripped:
  "commonpath [''foo-1.0/'', ''foo-1.0/a.txt''] = Inr ''foo-1.0''
   \<and> commonpath [''foo-1.0/src/a.txt'', ''foo-1.0/src/b.txt''] = Inr ''foo-1.0/src''
   \<and> fs (snd (download_archive mirror_env [''cache''] ''lib'' ''https://example.org/deep.zip''
         empty_world)) [''cache'', ''lib'', ''lib'', ''a.txt''] = Some (File (Bytes ''hi''))
   \<and> fs (snd (download_archive mirror_env [''cache''] ''lib'' ''https://example.org/deep.zip''
         empty_world)) [''cache'', ''lib'', ''lib'', ''foo-1.0''] = None"
  by code_simp

section \<open>The temporary download file\<close>

text \<open>
  Claim C5 at a download that fails. Each of the three attempts opens the destination,
  writes two bytes and times out. \<open>download_with_retry\<close> raises before the \<open>try\<close> block
  of \<open>download_archive\<close> is entered, so its \<open>finally\<close> clause does not run, and the file
  \<open>cache/lib_download\<close> is still there when \<open>download_archive\<close>, \<open>process_package\<close> and
  \<open>main\<close> have raised.
\<close>

theorem failed_download_leaves_artifact:
  "fst (download_archive stalling_env [''cache''] ''lib'' ''https://example.org/lib.zip'' empty_world)
     = Inl (Exception ''Failed to download after 3 attempts: The read operation timed out'')
   \<and> fs (snd (download_archive stalling_env [''cache''] ''lib'' ''https://example.org/lib.zip''
         empty_world)) [''cache'', ''lib_download''] = Some (File (Bytes ''PK''))
   \<and> fst (main stalling_env (lib_args\<lparr>url := Some ''https://example.org/lib.zip''\<rparr>) empty_world)
     = Inl (Exception ''Failed to download after 3 attempts: The read operation timed out'')
   \<and> fs (snd (main stalling_env (lib_args\<lparr>url := Some ''https://example.org/lib.zip''\<rparr>)
         empty_world)) [''cache'', ''lib_download''] = Some (File (Bytes ''PK''))"
  by code_simp

section \<open>A fetch that fails\<close>




text \<open>
  The program itself leaves such a record behind: an archive without members is extracted
  with success, no package directory is made, and the record is saved.
\<close>

lemma empty_archive_leaves_orphan_record:
  "fst (main empty_zip_env url_args empty_world) = Inr ()
   \<and> fs (snd (main empty_zip_env url_args empty_world)) [''cache'', ''lib'', ''lib''] = None
   \<and> fs (snd (main empty_zip_env url_args empty_world)) [''cache'', ''lib'', ''CACHE'', ''.cache'']
       = Some (File (Json (new_info url_args)))"
  by code_simp

text \<open>
  Nor does it hold of an archive that is not contained. The common prefix \<open>x/y\<close> is
  cut off the member \<open>x/y/../CACHE/.cache\<close>, the rest \<open>../CACHE/.cache\<close> is joined to
  the package directory, and the member is written onto the record file; the next member
  is damaged and the fetch raises, with a file where the record belongs.
\<close>

lemma uncontained_archive_writes_record:
  "commonpath [''x/y/../CACHE/.cache'', ''x/y/b.txt''] = Inr ''x/y''
   \<and> \<not> safe_tail ''../CACHE/.cache''
   \<and> fst (main traversal_env url_args empty_world) = Inl BadZipFile
   \<and> fs (snd (main traversal_env url_args empty_world)) [''cache'', ''lib'', ''CACHE'', ''.cache'']
       = Some (File (Bytes ''{}''))
   \<and> fs (snd (main traversal_env url_args empty_world)) [''cache'', ''lib'', ''lib'', ''b.txt'']
       = Some (File (Bytes ''h''))"
  by code_simp

section \<open>A change of identity\<close>

text \<open>
  Claim C1, as the code has it. The fingerprint is taken of the dictionary \<open>new_info\<close>:
  version, tag, the two repositories and the URL, each with unset read as the empty string;
  the name is not in it. Two descriptors whose dictionaries differ have different
  serialisations, so their fingerprints differ unless the digest, cut to 16 characters,
  collides on these two strings (the hypothesis that stands for "with overwhelming
  probability"). Then a run with the second descriptor against a package directory and a
  record built from the first, in a process that has not read the record yet, writes
  \<open>REFETCH\<close>.
\<close>

theorem stale_record_refetch:
  assumes "new_info a2 \<noteq> new_info a1"
    and "take 16 (sha256_hexdigest e (json_dumps_sorted (new_info a1)))
           = take 16 (sha256_hexdigest e (json_dumps_sorted (new_info a2)))
         \<longrightarrow> json_dumps_sorted (new_info a1) = json_dumps_sorted (new_info a2)"
    and "path_exists (fs s) (get_package_dir cd (name a2))"
    and "fs s (pjoin (pjoin (pjoin cd (name a2)) ''CACHE'') ''.cache'') = Some (File (Json (new_info a1)))"
    and "metadata_cache s (name a2) = None"
  shows "get_package_hash e (new_info a1) \<noteq> get_package_hash e (new_info a2)
    \<and> emitted ''REFETCH'' (name a2) (snd (process_package e cd a2 s))"
proof -
  let ?n = "name a2"
  let ?pd = "get_package_dir cd ?n"
  have d: "json_dumps_sorted (new_info a1) \<noteq> json_dumps_sorted (new_info a2)"
    using assms(1) json_dumps_new_info_inj[of a1 a2] by auto
  with assms(2) have h: "get_package_hash e (new_info a1) \<noteq> get_package_hash e (new_info a2)"
    by (auto simp add: get_package_hash_def)
  have v: "fst (is_cache_valid e cd ?n (new_info a2) ?pd s) = Inr False"
    using assms(3,4,5) h
    by (simp add: is_cache_valid_def Let_def path_exists_def json_load_def)
  let ?sv = "(snd (is_cache_valid e cd ?n (new_info a2) ?pd s))\<lparr>out := out (announce a2 s)\<rparr>"
  have nr: "needs_refetch e cd ?n (new_info a2) (announce a2 s) = (Inr True, ?sv)"
    by (simp add: needs_refetch_def is_cache_valid_announce v)
  have P: "process_package e cd a2 s =
      reuse_or_fetch e cd a2 (clear_package cd ?n (logger_status ''REFETCH'' ?n ?sv))"
    using assms(3) by (simp add: process_package_stages nr)
  have "status_line ''REFETCH'' ?n \<in> set (out (logger_status ''REFETCH'' ?n ?sv))"
    using status_emitted[of "''REFETCH''" ?n ?sv] by (simp add: emitted_def)
  then have "status_line ''REFETCH'' ?n \<in> set (out (snd (process_package e cd a2 s)))"
    unfolding P by (intro reuse_or_fetch_out clear_package_out)
  then show ?thesis
    using h by (simp add: emitted_def)
qed

text \<open>
  The version changes from unset to \<open>2.0\<close>; the digest that stands in for SHA-256 is the
  reversal of its input, which tells the two serialisations apart within 16 characters.
\<close>

theorem stale_record_refetch_witness:
  "get_package_hash offline_env (new_info git_args)
     \<noteq> get_package_hash offline_env (new_info (git_args\<lparr>version := Some ''2.0''\<rparr>))
   \<and> emitted ''REFETCH'' ''lib''
        (snd (process_package offline_env [''cache''] (git_args\<lparr>version := Some ''2.0''\<rparr>) cached_world))"
proof -
  let ?a2 = "git_args\<lparr>version := Some ''2.0''\<rparr>"
  have n: "name ?a2 = ''lib''" by (simp add: git_args_def lib_args_def)
  have h1: "new_info ?a2 \<noteq> new_info git_args"
    by (simp add: new_info_def git_args_def lib_args_def or_empty_def)
  have h2: "take 16 (sha256_hexdigest offline_env (json_dumps_sorted (new_info git_args)))
           = take 16 (sha256_hexdigest offline_env (json_dumps_sorted (new_info ?a2)))
         \<longrightarrow> json_dumps_sorted (new_info git_args) = json_dumps_sorted (new_info ?a2)"
    by (simp add: json_dumps_new_info offline_env_def git_args_def lib_args_def or_empty_def
        escape_char_def dquote_def backslash_def)
  have h3: "path_exists (fs cached_world) (get_package_dir [''cache''] (name ?a2))"
    by (simp add: n literal_paths cached_world_def path_exists_def)
  have h4: "fs cached_world (pjoin (pjoin (pjoin [''cache''] (name ?a2)) ''CACHE'') ''.cache'')
      = Some (File (Json (new_info git_args)))"
    by (simp add: n literal_paths cached_world_def)
  have h5: "metadata_cache cached_world (name ?a2) = None"
    by (simp add: cached_world_def empty_world_def)
  show ?thesis
    using stale_record_refetch[OF h1 h2 h3 h4 h5] by (simp add: n)
qed

text \<open>
  Claim C1 as stated fails for two of the differences it names. Descriptors that differ
  only in the name have the same fingerprint, whatever the digest, and the run with the
  other name writes no \<open>REFETCH\<close> (it looks at another directory). Descriptors that differ
  only in that the version is unset in one and the empty string in the other have the same
  fingerprint too, and the run goes on to the update without \<open>REFETCH\<close>.
\<close>

theorem fingerprint_ignores_name:
  "name (git_args\<lparr>name := ''other''\<rparr>) \<noteq> name git_args
   \<and> get_package_hash offline_env (new_info (git_args\<lparr>name := ''other''\<rparr>))
       = get_package_hash offline_env (new_info git_args)
   \<and> \<not> emitted ''REFETCH'' ''other''
         (snd (process_package offline_env [''cache''] (git_args\<lparr>name := ''other''\<rparr>) cached_world))
   \<and> \<not> emitted ''REFETCH'' ''lib''
         (snd (process_package offline_env [''cache''] (git_args\<lparr>name := ''other''\<rparr>) cached_world))
   \<and> version (git_args\<lparr>version := Some []\<rparr>) \<noteq> version git_args
   \<and> get_package_hash offline_env (new_info (git_args\<lparr>version := Some []\<rparr>))
       = get_package_hash offline_env (new_info git_args)
   \<and> \<not> emitted ''REFETCH'' ''lib''
         (snd (process_package offline_env [''cache''] (git_args\<lparr>version := Some []\<rparr>) cached_world))"
proof -
  let ?o = "git_args\<lparr>name := ''other''\<rparr>"
  let ?v = "git_args\<lparr>version := Some []\<rparr>"
  have a: "name ?o \<noteq> name git_args" "version ?v \<noteq> version git_args"
    by (simp_all add: git_args_def lib_args_def)
  have i: "new_info ?o = new_info git_args" "new_info ?v = new_info git_args"
    by (simp_all add: new_info_def git_args_def lib_args_def or_empty_def)
  have r: "\<not> emitted ''REFETCH'' ''other'' (snd (process_package offline_env [''cache''] ?o cached_world))"
    "\<not> emitted ''REFETCH'' ''lib'' (snd (process_package offline_env [''cache''] ?o cached_world))"
    by code_simp+
  have n: "name ?v = ''lib''" "keep_updated ?v" "git_repository ?v = Some ''https://example/lib.git''"
     "github_repository ?v = None" "git_tag ?v = None" "version ?v = Some []"
    by (simp_all add: git_args_def lib_args_def)
  have v: "is_cache_valid offline_env [''cache''] ''lib'' (new_info git_args) [''cache'', ''lib'', ''lib'']
      (announce ?v cached_world) = (Inr True, (announce ?v cached_world)\<lparr>metadata_cache :=
         (metadata_cache cached_world)(''lib'' \<mapsto> new_info git_args)\<rparr>)"
    by (simp add: is_cache_valid_def Let_def literal_paths cached_world_def empty_world_def
        path_exists_def json_load_def)
  have ex: "path_exists (fs cached_world) [''cache'', ''lib'', ''lib'']"
    by (simp add: cached_world_def path_exists_def)
  let ?sv = "(announce ?v cached_world)\<lparr>metadata_cache :=
         (metadata_cache cached_world)(''lib'' \<mapsto> new_info git_args)\<rparr>"
  have P: "process_package offline_env [''cache''] ?v cached_world
      = reuse_or_fetch offline_env [''cache''] ?v ?sv"
    using ex
    by (simp add: process_package_stages n(1) i literal_paths needs_refetch_def v)
  have s: "\<not> emitted ''REFETCH'' ''lib'' (snd (process_package offline_env [''cache''] ?v cached_world))"
    unfolding P using ex
    by (simp add: n literal_paths reuse_or_fetch_def
       Let_def update_repo_def update_full_def update_steps_def run_command_def
       offline_env_def ok_result_def emitted_def status_line_def announce_def
       logger_status_def logger_info_def cached_world_def empty_world_def path_exists_def)
  show ?thesis
    using a r s by (simp add: i)
qed

end
